theory Spec2Isabelle
  imports Main
begin

section \<open>Data model\<close>

subsection \<open>Errors and the ways a function stops\<close>

text \<open>
  A Go \<^verbatim>\<open>error\<close> value is its message. \<^verbatim>\<open>errors.New\<close> and \<^verbatim>\<open>fmt.Errorf\<close> build an
  \<open>Error\<close>; \<^verbatim>\<open>cmdutil.HelpError\<close> and \<^verbatim>\<open>cmdutil.HelpErrorf\<close> build a \<open>HelpError\<close>.
  A function either returns its error to the caller (\<open>Returned\<close>) or the process is
  terminated inside \<^verbatim>\<open>cmdutil.CheckErr\<close> (\<open>Exited\<close>).
\<close>

datatype error = Error string | HelpError string

datatype stop = Returned error | Exited error

subsection \<open>Flags with provenance\<close>

text \<open>
  Modelled from the spec: \<^verbatim>\<open>cliflag.StringFlag\<close> (package \<^verbatim>\<open>internal/pkg/flag\<close>, whose
  declaration is not among the sources). The spec describes it as an optional value with
  provenance, so that provided-but-empty differs from not-provided: a value and a flag
  that records whether \<^verbatim>\<open>Set\<close> has been called. \<^verbatim>\<open>Value()\<close> and \<^verbatim>\<open>String()\<close> both read the
  value.
\<close>

record StringFlag =
  provided :: bool
  flag_value :: string

definition Provided :: "StringFlag \<Rightarrow> bool" where
  "Provided f = provided f"

definition Value :: "StringFlag \<Rightarrow> string" where
  "Value f = flag_value f"

definition String_of :: "StringFlag \<Rightarrow> string" where
  "String_of f = flag_value f"

definition Set_flag :: "string \<Rightarrow> StringFlag \<Rightarrow> StringFlag" where
  "Set_flag v f = f\<lparr>flag_value := v, provided := True\<rparr>"

subsection \<open>Contexts and the configuration store\<close>

text \<open>
  Modelled from the spec: \<^verbatim>\<open>configuration.Context\<close>, \<^verbatim>\<open>configuration.Configuration\<close> and
  its \<^verbatim>\<open>KaftaData\<close> (package \<^verbatim>\<open>internal/pkg/configuration\<close>, not among the sources). The
  fields are the ones the commands read and write; a context is a value with a nested SASL
  value, copied when the merge copies it, and the store maps a name to a context.
\<close>

record SASL_t =
  Algorithm :: string
  Username :: string
  Password :: string

record Context =
  Ksql :: string
  SchemaRegistry :: string
  BootstrapServers :: "string list"
  KafkaVersion :: string
  UseSASL :: bool
  SASL :: SASL_t
  TLS :: bool

record KaftaData_t =
  CurrentContext :: string
  Contexts :: "string \<rightharpoonup> Context"

record Configuration =
  KaftaData :: KaftaData_t

subsection \<open>Options of set-context\<close>

record createContextOptions =
  config :: Configuration
  name :: string
  currContext :: bool
  schemaRegistry :: StringFlag
  ksql :: StringFlag
  bootstrapServers :: StringFlag
  version :: StringFlag
  user :: StringFlag
  password :: StringFlag
  useSASL :: StringFlag
  algorithm :: StringFlag
  useTLS :: bool
  parsedVersion :: string
  quiet :: bool

subsection \<open>Collaborators outside the sources\<close>

text \<open>
  The network, the broker client, the version table and the terminal are parameters of the
  model. \<open>DialTimeout a\<close> tells whether \<^verbatim>\<open>net.DialTimeout("tcp", a, 3s)\<close> returns no error;
  \<open>MakeConnectionContext cfg c\<close> is the error of \<^verbatim>\<open>kafka.MakeConnectionContext\<close>, if any;
  \<open>ParseKafkaVersion v\<close> is the error of \<^verbatim>\<open>sarama.ParseKafkaVersion\<close> or the \<^verbatim>\<open>String()\<close> of
  the version it returns; \<open>GetText\<close>, \<open>GetConfirmation\<close> and \<open>GetPassword\<close> are the answers of
  the prompts of package \<^verbatim>\<open>ui\<close>, by label and second argument; \<open>MakeContext\<close> is the value
  of \<^verbatim>\<open>configuration.MakeContext()\<close>.
\<close>

record collab =
  DialTimeout :: "string \<Rightarrow> bool"
  MakeConnectionContext :: "Configuration \<Rightarrow> Context \<Rightarrow> error option"
  ParseKafkaVersion :: "string \<Rightarrow> error + string"
  GetText :: "string \<Rightarrow> bool \<Rightarrow> error + string"
  GetConfirmation :: "string \<Rightarrow> bool \<Rightarrow> error + bool"
  GetPassword :: "string \<Rightarrow> bool \<Rightarrow> error + string"
  MakeContext :: Context

subsection \<open>Observable events\<close>

text \<open>
  What a command does to the outside, in order: a line printed, the merged context printed
  with \<^verbatim>\<open>%v\<close>, the report that a context was created or modified, a TCP dial, a call of
  \<^verbatim>\<open>kafka.MakeConnectionContext\<close>, a prompt, and the calls of the broker client made by
  get-configs.
\<close>

datatype event =
  Printed string
  | PrintedContext Context
  | ReportedCreated string
  | ReportedModified string
  | Dialed string
  | Connected Configuration Context
  | Prompted string
  | MadeConnection
  | ClosedConnection
  | GotBrokers
  | DescribedBrokerConfig string

section \<open>Library functions of Go\<close>

text \<open>
  \<^verbatim>\<open>strings.Split(s, sep)\<close> for a separator of one character, the only way the commands
  call it (\<^verbatim>\<open>","\<close> and \<^verbatim>\<open>":"\<close>): the pieces between the separators, one more than there are
  separators, so that the empty string gives one empty piece.
\<close>

fun strings_Split :: "string \<Rightarrow> char \<Rightarrow> string list" where
  "strings_Split [] sep = [[]]"
| "strings_Split (c # cs) sep =
     (if c = sep then [] # strings_Split cs sep
      else (case strings_Split cs sep of
              [] \<Rightarrow> [[c]]
            | w # ws \<Rightarrow> (c # w) # ws))"

section \<open>set-context: the merge\<close>

text \<open>
  \<^verbatim>\<open>modifyContext\<close> copies the context and overwrites the fields whose flag was provided.
  A version that does not parse ends the process in \<^verbatim>\<open>cmdutil.CheckErr\<close>.
\<close>

definition modifyContext :: "collab \<Rightarrow> createContextOptions \<Rightarrow> Context \<Rightarrow> stop + Context" where
  "modifyContext env opts context =
     (let m1 = (if Provided (ksql opts) then context\<lparr>Ksql := Value (ksql opts)\<rparr> else context);
          m2 = (if Provided (schemaRegistry opts)
                then m1\<lparr>SchemaRegistry := Value (schemaRegistry opts)\<rparr> else m1);
          m3 = (if Provided (bootstrapServers opts)
                then m2\<lparr>BootstrapServers := strings_Split (Value (bootstrapServers opts)) CHR '',''\<rparr>
                else m2)
      in case (if length (parsedVersion opts) > 0
               then (case ParseKafkaVersion env (parsedVersion opts) of
                       Inl err \<Rightarrow> Inl (Exited err)
                     | Inr v \<Rightarrow> Inr (m3\<lparr>KafkaVersion := v\<rparr>))
               else Inr m3) of
           Inl st \<Rightarrow> Inl st
         | Inr m4 \<Rightarrow>
             (let m5 = (if Provided (useSASL opts) then m4\<lparr>UseSASL := True\<rparr> else m4);
                  m6 = (if Provided (algorithm opts)
                        then m5\<lparr>SASL := (SASL m5)\<lparr>Algorithm := Value (algorithm opts)\<rparr>\<rparr> else m5);
                  m7 = (if Provided (user opts)
                        then m6\<lparr>SASL := (SASL m6)\<lparr>Username := Value (user opts)\<rparr>\<rparr> else m6);
                  m8 = (if Provided (password opts)
                        then m7\<lparr>SASL := (SASL m7)\<lparr>Password := Value (password opts)\<rparr>\<rparr> else m7)
              in Inr (m8\<lparr>TLS := useTLS opts\<rparr>)))"


section \<open>Effects\<close>

text \<open>
  A method with receiver state \<open>'s\<close> takes the state and gives its result (or the way it
  stopped), the state it leaves, and the events it caused, in order.
\<close>

type_synonym ('s, 'a) eff = "'s \<Rightarrow> (stop + 'a) \<times> 's \<times> event list"

definition ret :: "'a \<Rightarrow> ('s, 'a) eff" where
  "ret x s = (Inr x, s, [])"

definition fail :: "stop \<Rightarrow> ('s, 'a) eff" where
  "fail e s = (Inl e, s, [])"

definition emit :: "event \<Rightarrow> ('s, unit) eff" where
  "emit ev s = (Inr (), s, [ev])"

definition get :: "('s, 's) eff" where
  "get s = (Inr s, s, [])"

definition modify :: "('s \<Rightarrow> 's) \<Rightarrow> ('s, unit) eff" where
  "modify f s = (Inr (), f s, [])"

definition bindE :: "('s, 'a) eff \<Rightarrow> ('a \<Rightarrow> ('s, 'b) eff) \<Rightarrow> ('s, 'b) eff" where
  "bindE m f s =
     (case m s of
        (Inl e, s1, t1) \<Rightarrow> (Inl e, s1, t1)
      | (Inr x, s1, t1) \<Rightarrow> (case f x s1 of (r, s2, t2) \<Rightarrow> (r, s2, t1 @ t2)))"

text \<open>\<^verbatim>\<open>err := f()\<close>: the error a call returns becomes a value the caller tests.\<close>

definition returned_error :: "('s, unit) eff \<Rightarrow> ('s, error option) eff" where
  "returned_error m s =
     (case m s of
        (Inl (Returned e), s1, t1) \<Rightarrow> (Inr (Some e), s1, t1)
      | (Inl (Exited e), s1, t1) \<Rightarrow> (Inl (Exited e), s1, t1)
      | (Inr u, s1, t1) \<Rightarrow> (Inr None, s1, t1))"

text \<open>
  Modelled from the spec: \<^verbatim>\<open>cmdutil.CheckErr\<close> (package \<^verbatim>\<open>pkg/cmd/util\<close>, not among the
  sources). On an error the command prints it and the process exits with a non-zero
  status; on \<^verbatim>\<open>nil\<close> it does nothing.
\<close>

definition CheckErr :: "error option \<Rightarrow> ('s, unit) eff" where
  "CheckErr err = (case err of None \<Rightarrow> ret () | Some e \<Rightarrow> fail (Exited e))"

text \<open>\<^verbatim>\<open>x, err := f(); cmdutil.CheckErr(err)\<close> for a call that also gives a value.\<close>

definition checked :: "('s, 'a) eff \<Rightarrow> ('s, 'a) eff" where
  "checked m s =
     (case m s of
        (Inl (Returned e), s1, t1) \<Rightarrow> (Inl (Exited e), s1, t1)
      | (Inl (Exited e), s1, t1) \<Rightarrow> (Inl (Exited e), s1, t1)
      | (Inr x, s1, t1) \<Rightarrow> (Inr x, s1, t1))"

text \<open>A prompt of package \<^verbatim>\<open>ui\<close> followed by \<^verbatim>\<open>cmdutil.CheckErr(err)\<close>.\<close>

definition prompt :: "string \<Rightarrow> error + 'a \<Rightarrow> ('s, 'a) eff" where
  "prompt label answer =
     bindE (emit (Prompted label))
       (\<lambda>_. case answer of Inl err \<Rightarrow> fail (Exited err) | Inr x \<Rightarrow> ret x)"

text \<open>\<^verbatim>\<open>%v\<close> and \<^verbatim>\<open>%s\<close> of a slice of strings: the elements between brackets, separated by spaces.\<close>

fun strings_Join :: "string list \<Rightarrow> string \<Rightarrow> string" where
  "strings_Join [] sep = []"
| "strings_Join [x] sep = x"
| "strings_Join (x # y # ys) sep = x @ sep @ strings_Join (y # ys) sep"

definition fmt_strings :: "string list \<Rightarrow> string" where
  "fmt_strings xs = ''['' @ strings_Join xs '' '' @ '']''"

section \<open>set-context: validation\<close>

definition testHost :: "collab \<Rightarrow> string \<Rightarrow> ('s, bool) eff" where
  "testHost env address =
     (if length (strings_Split address CHR '':'') \<le> 1
      then bindE (emit (Printed (''Port is nedeed on '' @ address @ ''!'' @ [CHR 0x0A])))
             (\<lambda>_. ret False)
      else bindE (emit (Dialed address))
             (\<lambda>_. if \<not> DialTimeout env address then ret False else ret True))"

definition validate :: "collab \<Rightarrow> (createContextOptions, unit) eff" where
  "validate env =
     bindE get (\<lambda>opts.
       if length (name opts) = 0 \<and> \<not> currContext opts
       then fail (Returned (Error ''you must specify a non-empty context name or --current''))
       else if length (name opts) > 0 \<and> currContext opts
       then fail (Returned (Error ''you cannot specify both a context name and --current''))
       else
         bindE (if Provided (ksql opts)
                then bindE (testHost env (String_of (ksql opts))) (\<lambda>ok. ret (\<not> ok))
                else ret False) (\<lambda>bad_ksql.
           if bad_ksql then fail (Returned (Error ''failed to connect on ksql''))
           else
             bindE (if Provided (schemaRegistry opts)
                    then bindE (testHost env (String_of (schemaRegistry opts))) (\<lambda>ok. ret (\<not> ok))
                    else ret False) (\<lambda>bad_registry.
               if bad_registry then fail (Returned (Error ''failed to connect on schema-registry''))
               else if Provided (useSASL opts) \<and> quiet opts
               then (if \<not> Provided (user opts)
                     then fail (Returned (Error ''user flag is required if SASL is provided''))
                     else if \<not> Provided (password opts)
                     then fail (Returned (Error ''user flag is required if SASL is provided''))
                     else ret ())
               else ret ())))"

section \<open>set-context: completion by prompts\<close>

definition promptNeeded :: "collab \<Rightarrow> Context \<Rightarrow> (createContextOptions, unit) eff" where
  "promptNeeded env context =
     bindE get (\<lambda>opts0.
       if quiet opts0 then ret ()
       else
         bindE (if \<not> Provided (bootstrapServers opts0) \<and> length (BootstrapServers context) = 0
                then bindE (prompt ''Bootstrap servers'' (GetText env ''Bootstrap servers'' True))
                       (\<lambda>servers. modify (\<lambda>opts.
                          opts\<lparr>bootstrapServers := Set_flag servers (bootstrapServers opts)\<rparr>))
                else ret ()) (\<lambda>_.
         bindE get (\<lambda>opts1.
         bindE (if \<not> Provided (version opts1) \<and> length (KafkaVersion context) = 0
                then bindE (prompt ''Kafka version'' (GetText env ''Kafka version'' True))
                       (\<lambda>v. modify (\<lambda>opts. opts\<lparr>version := Set_flag v (version opts)\<rparr>))
                else ret ()) (\<lambda>_.
         bindE get (\<lambda>opts2.
           if \<not> Provided (useSASL opts2)
           then
             bindE (prompt ''Use SASL'' (GetConfirmation env ''Use SASL'' False)) (\<lambda>sasl.
               if sasl
               then
                 bindE (modify (\<lambda>opts. opts\<lparr>useSASL := Set_flag ''true'' (useSASL opts)\<rparr>)) (\<lambda>_.
                 bindE get (\<lambda>opts3.
                 bindE (if \<not> Provided (algorithm opts3) \<and> length (Algorithm (SASL context)) = 0
                        then bindE (prompt ''SASL Algorithm'' (GetText env ''SASL Algorithm'' True))
                               (\<lambda>a. modify (\<lambda>opts.
                                  opts\<lparr>algorithm := Set_flag a (algorithm opts)\<rparr>))
                        else ret ()) (\<lambda>_.
                 bindE get (\<lambda>opts4.
                 bindE (if \<not> Provided (user opts4) \<and> length (Username (SASL context)) = 0
                        then bindE (prompt ''User'' (GetText env ''User'' True))
                               (\<lambda>u. modify (\<lambda>opts. opts\<lparr>user := Set_flag u (user opts)\<rparr>))
                        else ret ()) (\<lambda>_.
                 bindE get (\<lambda>opts5.
                   if \<not> Provided (password opts5) \<and> length (Password (SASL context)) = 0
                   then bindE (prompt ''Password'' (GetPassword env ''Password'' True))
                          (\<lambda>p. modify (\<lambda>opts. opts\<lparr>password := Set_flag p (password opts)\<rparr>))
                   else ret ()))))))
               else ret ())
           else ret ())))))"

section \<open>set-context: connection check, run, complete and the command\<close>

definition checkConnection :: "collab \<Rightarrow> Context \<Rightarrow> (createContextOptions, unit) eff" where
  "checkConnection env context =
     bindE get (\<lambda>opts.
       if Provided (bootstrapServers opts)
       then bindE (emit (Connected (config opts) context))
              (\<lambda>_. case MakeConnectionContext env (config opts) context of
                      Some err \<Rightarrow> fail (Returned err)
                    | None \<Rightarrow> ret ())
       else ret ())"

definition run :: "collab \<Rightarrow> (createContextOptions, string \<times> bool) eff" where
  "run env =
     bindE (validate env) (\<lambda>_.
     bindE get (\<lambda>opts.
     bindE (if currContext opts
            then (if length (CurrentContext (KaftaData (config opts))) = 0
                  then fail (Returned (Error ''no current context is set''))
                  else ret (CurrentContext (KaftaData (config opts))))
            else ret (name opts)) (\<lambda>name'.
     bindE get (\<lambda>opts0.
     case (case Contexts (KaftaData (config opts0)) name' of
             Some c \<Rightarrow> (c, True)
           | None \<Rightarrow> (MakeContext env, False)) of
       (startingInstance, exists) \<Rightarrow>
     bindE (bindE (returned_error (promptNeeded env startingInstance)) CheckErr) (\<lambda>_.
     bindE get (\<lambda>opts1.
     bindE (\<lambda>s. (modifyContext env opts1 startingInstance, s, [])) (\<lambda>context.
     bindE (emit (PrintedContext context)) (\<lambda>_.
     bindE (returned_error (checkConnection env context)) (\<lambda>err.
     bindE (if err \<noteq> None
            then bindE (CheckErr err) (\<lambda>_.
                   fail (Returned (Error (''could not connect to ''
                                            @ fmt_strings (BootstrapServers context)))))
            else ret ()) (\<lambda>_.
     bindE (modify (\<lambda>o1. o1\<lparr>config := (config o1)\<lparr>KaftaData :=
              (KaftaData (config o1))\<lparr>Contexts :=
                 (Contexts (KaftaData (config o1)))(name' \<mapsto> context)\<rparr>\<rparr>\<rparr>)) (\<lambda>_.
     ret (name', exists))))))))))))"

definition complete :: "string list \<Rightarrow> (createContextOptions, unit) eff" where
  "complete args =
     (if length args > 1
      then fail (Returned (HelpError (''Unexpected args: '' @ fmt_strings args)))
      else
        bindE (if length args = 1 then modify (\<lambda>opts. opts\<lparr>name := args ! 0\<rparr>) else ret ()) (\<lambda>_.
        bindE get (\<lambda>opts.
          if Provided (version opts)
          then modify (\<lambda>opts'. opts'\<lparr>parsedVersion := Value (version opts')\<rparr>)
          else ret ())))"

text \<open>
  The options as \<^verbatim>\<open>NewCmdConfigSetContext\<close> builds them before the flags are parsed:
  every field zero, but \<^verbatim>\<open>useTLS\<close>, which \<^verbatim>\<open>BoolVar\<close> sets to the default of \<^verbatim>\<open>--tls\<close>.
\<close>

definition unset_flag :: StringFlag where
  "unset_flag = \<lparr>provided = False, flag_value = []\<rparr>"

definition NewCmdConfigSetContext_options :: "Configuration \<Rightarrow> createContextOptions" where
  "NewCmdConfigSetContext_options cfg =
     \<lparr>config = cfg, name = [], currContext = False,
      schemaRegistry = unset_flag, ksql = unset_flag, bootstrapServers = unset_flag,
      version = unset_flag, user = unset_flag, password = unset_flag,
      useSASL = unset_flag, algorithm = unset_flag,
      useTLS = True, parsedVersion = [], quiet = False\<rparr>"

text \<open>The \<^verbatim>\<open>Run\<close> closure of the command, on the options the flag parser has filled.\<close>

definition NewCmdConfigSetContext_Run ::
  "collab \<Rightarrow> string list \<Rightarrow> (createContextOptions, unit) eff" where
  "NewCmdConfigSetContext_Run env args =
     bindE (bindE (returned_error (complete args)) CheckErr) (\<lambda>_.
     bindE (checked (run env)) (\<lambda>(name', exists).
       if exists then emit (ReportedModified name') else emit (ReportedCreated name')))"

section \<open>get-configs\<close>

text \<open>
  Modelled from the spec: the broker summaries of \<^verbatim>\<open>kafka.GetBrokers\<close> and the entries of
  \<^verbatim>\<open>kafka.DescribeBrokerConfig\<close> (package \<^verbatim>\<open>internal/pkg/kafka\<close>, not among the sources). A
  summary has the broker's id, here already widened by \<^verbatim>\<open>int64(broker.ID())\<close>, and whether
  it is the controller; an entry has a name, a value and whether the value is the default.
\<close>

record BrokerSummary =
  ID :: int
  IsController :: bool

record ConfigEntry =
  entry_Name :: string
  entry_Value :: string
  entry_Default :: bool

record clusterConfig =
  clusterConfig_config :: Configuration
  brokerId :: string

text \<open>
  The broker client and \<^verbatim>\<open>cmdutil.Wrap\<close> are parameters: the brokers the cluster lists, the
  configuration entries of a broker, and the wrapping of a value to a width.
\<close>

record kafka_collab =
  GetBrokers :: "Configuration \<Rightarrow> BrokerSummary list"
  DescribeBrokerConfig :: "Configuration \<Rightarrow> string \<Rightarrow> ConfigEntry list"
  Wrap :: "string \<Rightarrow> nat \<Rightarrow> string"

text \<open>\<^verbatim>\<open>strconv.FormatInt(i, 10)\<close>: the decimal digits, after a minus sign when negative.\<close>

fun decimal_digits :: "nat \<Rightarrow> string" where
  "decimal_digits n =
     (if n < 10 then [''0123456789'' ! n]
      else decimal_digits (n div 10) @ [''0123456789'' ! (n mod 10)])"

declare decimal_digits.simps [simp del]

definition strconv_FormatInt :: "int \<Rightarrow> string" where
  "strconv_FormatInt i =
     (if i < 0 then CHR ''-'' # decimal_digits (nat (- i)) else decimal_digits (nat i))"

text \<open>The loop over the brokers: the first controller sets the id and ends the loop.\<close>

fun controller_loop :: "BrokerSummary list \<Rightarrow> clusterConfig \<Rightarrow> clusterConfig" where
  "controller_loop [] opts = opts"
| "controller_loop (broker # brokers) opts =
     (if IsController broker then opts\<lparr>brokerId := strconv_FormatInt (ID broker)\<rparr>
      else controller_loop brokers opts)"

text \<open>The deferred \<^verbatim>\<open>conn.Close()\<close> runs when the function returns, on every path.\<close>

definition defaultValue :: "kafka_collab \<Rightarrow> string list \<Rightarrow> (clusterConfig, unit) eff" where
  "defaultValue env args =
     (if length args = 0
      then
        bindE (emit MadeConnection) (\<lambda>_.
        bindE (emit GotBrokers) (\<lambda>_.
        bindE (modify (\<lambda>opts.
                 controller_loop (GetBrokers env (clusterConfig_config opts)) opts)) (\<lambda>_.
        bindE get (\<lambda>opts.
        bindE (emit ClosedConnection) (\<lambda>_.
          if brokerId opts = [] then fail (Returned (HelpError ''Impossible find BrokerId coordinator''))
          else ret ())))))
      else modify (\<lambda>opts. opts\<lparr>brokerId := args ! 0\<rparr>))"

definition fmt_bool :: "bool \<Rightarrow> string" where
  "fmt_bool b = (if b then ''true'' else ''false'')"

definition printContext :: "string \<Rightarrow> string \<Rightarrow> bool \<Rightarrow> ('s, unit) eff" where
  "printContext nm val isDefault =
     emit (Printed (nm @ [CHR 0x09] @ val @ [CHR 0x09] @ fmt_bool isDefault @ [CHR 0x0A]))"

fun print_configs :: "kafka_collab \<Rightarrow> ConfigEntry list \<Rightarrow> ('s, unit) eff" where
  "print_configs env [] = ret ()"
| "print_configs env (c # cs) =
     bindE (printContext (entry_Name c) (Wrap env (entry_Value c) 100) (entry_Default c))
       (\<lambda>_. print_configs env cs)"

definition clusterConfig_run :: "kafka_collab \<Rightarrow> (clusterConfig, unit) eff" where
  "clusterConfig_run env =
     bindE (emit MadeConnection) (\<lambda>_.
     bindE get (\<lambda>opts.
     bindE (emit (DescribedBrokerConfig (brokerId opts))) (\<lambda>_.
     bindE (emit (Printed (''NAME'' @ [CHR 0x09] @ ''VALUE'' @ [CHR 0x09] @ ''DEFAULT''))) (\<lambda>_.
     bindE (print_configs env
              (DescribeBrokerConfig env (clusterConfig_config opts) (brokerId opts))) (\<lambda>_.
     emit ClosedConnection)))))"

text \<open>
  The options as \<^verbatim>\<open>NewCmdClusterGetConfig\<close> builds them, and the \<^verbatim>\<open>Run\<close> closure of the
  command: \<^verbatim>\<open>cmdutil.CheckErr(options.defaultValue(cmd))\<close>, then \<^verbatim>\<open>options.run(cmd)\<close>.
\<close>

definition NewCmdClusterGetConfig_options :: "Configuration \<Rightarrow> clusterConfig" where
  "NewCmdClusterGetConfig_options cfg = \<lparr>clusterConfig_config = cfg, brokerId = []\<rparr>"

definition NewCmdClusterGetConfig_Run ::
  "kafka_collab \<Rightarrow> string list \<Rightarrow> (clusterConfig, unit) eff" where
  "NewCmdClusterGetConfig_Run env args =
     bindE (bindE (returned_error (defaultValue env args)) CheckErr) (\<lambda>_. clusterConfig_run env)"

section \<open>Notions used to state the properties\<close>

text \<open>
  The context the merge gives once the version is settled: every field in closed form,
  \<open>v\<close> being the version string that ends up in the result.
\<close>

definition merged :: "createContextOptions \<Rightarrow> string \<Rightarrow> Context \<Rightarrow> Context" where
  "merged opts v b =
     \<lparr>Ksql = (if Provided (ksql opts) then Value (ksql opts) else Ksql b),
      SchemaRegistry =
        (if Provided (schemaRegistry opts) then Value (schemaRegistry opts) else SchemaRegistry b),
      BootstrapServers =
        (if Provided (bootstrapServers opts)
         then strings_Split (Value (bootstrapServers opts)) CHR '','' else BootstrapServers b),
      KafkaVersion = v,
      UseSASL = (Provided (useSASL opts) \<or> UseSASL b),
      SASL =
        \<lparr>Algorithm =
           (if Provided (algorithm opts) then Value (algorithm opts) else Algorithm (SASL b)),
         Username = (if Provided (user opts) then Value (user opts) else Username (SASL b)),
         Password =
           (if Provided (password opts) then Value (password opts) else Password (SASL b))\<rparr>,
      TLS = useTLS opts\<rparr>"

text \<open>An address without a \<^verbatim>\<open>:port\<close> part: splitting it at colons gives at most one piece.\<close>

definition lacks_port :: "string \<Rightarrow> bool" where
  "lacks_port a = (length (strings_Split a CHR '':'') \<le> 1)"

definition reachable :: "collab \<Rightarrow> string \<Rightarrow> bool" where
  "reachable env a = (\<not> lacks_port a \<and> DialTimeout env a)"

definition testHost_events :: "string \<Rightarrow> event list" where
  "testHost_events a =
     (if lacks_port a then [Printed (''Port is nedeed on '' @ a @ ''!'' @ [CHR 0x0A])]
      else [Dialed a])"

text \<open>Concrete inputs on which the theorems are exercised.\<close>

definition zero_context :: Context where
  "zero_context =
     \<lparr>Ksql = [], SchemaRegistry = [], BootstrapServers = [], KafkaVersion = [],
      UseSASL = False, SASL = \<lparr>Algorithm = [], Username = [], Password = []\<rparr>, TLS = False\<rparr>"

definition empty_store :: Configuration where
  "empty_store = \<lparr>KaftaData = \<lparr>CurrentContext = [], Contexts = Map.empty\<rparr>\<rparr>"

definition friendly_env :: collab where
  "friendly_env =
     \<lparr>DialTimeout = (\<lambda>a. True),
      MakeConnectionContext = (\<lambda>cfg c. None),
      ParseKafkaVersion = (\<lambda>v. Inr v),
      GetText = (\<lambda>label required. Inr ''answer''),
      GetConfirmation = (\<lambda>label dflt. Inr False),
      GetPassword = (\<lambda>label required. Inr ''secret''),
      MakeContext = zero_context\<rparr>"

definition hostile_env :: collab where
  "hostile_env =
     \<lparr>DialTimeout = (\<lambda>a. False),
      MakeConnectionContext = (\<lambda>cfg c. Some (Error ''no broker'')),
      ParseKafkaVersion = (\<lambda>v. Inr v),
      GetText = (\<lambda>label required. Inr ''answer''),
      GetConfirmation = (\<lambda>label dflt. Inr False),
      GetPassword = (\<lambda>label required. Inr ''secret''),
      MakeContext = zero_context\<rparr>"

definition given :: "string \<Rightarrow> StringFlag" where
  "given v = Set_flag v unset_flag"

definition dev_context :: Context where
  "dev_context =
     \<lparr>Ksql = ''ksql:8088'', SchemaRegistry = ''sr:8081'', BootstrapServers = [''b1:9092''],
      KafkaVersion = ''2.8.0'', UseSASL = False,
      SASL = \<lparr>Algorithm = ''plain'', Username = ''ann'', Password = ''pw''\<rparr>, TLS = False\<rparr>"

definition dev_options :: createContextOptions where
  "dev_options = (NewCmdConfigSetContext_options empty_store)\<lparr>name := ''dev''\<rparr>"

text \<open>
  The steps of \<^verbatim>\<open>run\<close> named: the name the command addresses, the context it starts from,
  whether that context was stored, and the options after the merged context is stored.
\<close>

definition target_name :: "createContextOptions \<Rightarrow> string" where
  "target_name opts =
     (if currContext opts then CurrentContext (KaftaData (config opts)) else name opts)"

definition starting_instance :: "collab \<Rightarrow> createContextOptions \<Rightarrow> Context" where
  "starting_instance env opts =
     (case Contexts (KaftaData (config opts)) (target_name opts) of
        Some c \<Rightarrow> c
      | None \<Rightarrow> MakeContext env)"

definition stored :: "createContextOptions \<Rightarrow> bool" where
  "stored opts = (Contexts (KaftaData (config opts)) (target_name opts) \<noteq> None)"

definition persist :: "string \<Rightarrow> Context \<Rightarrow> createContextOptions \<Rightarrow> createContextOptions" where
  "persist n c opts =
     opts\<lparr>config := (config opts)\<lparr>KaftaData :=
       (KaftaData (config opts))\<lparr>Contexts := (Contexts (KaftaData (config opts)))(n \<mapsto> c)\<rparr>\<rparr>\<rparr>"

text \<open>The contexts with which a run called \<^verbatim>\<open>kafka.MakeConnectionContext\<close>.\<close>

fun connections :: "event list \<Rightarrow> (Configuration \<times> Context) list" where
  "connections [] = []"
| "connections (Connected cfg c # evs) = (cfg, c) # connections evs"
| "connections (ev # evs) = connections evs"

text \<open>The events of validation, once the name check has passed.\<close>

definition ksql_events :: "createContextOptions \<Rightarrow> event list" where
  "ksql_events opts =
     (if Provided (ksql opts) then testHost_events (String_of (ksql opts)) else [])"

definition registry_events :: "createContextOptions \<Rightarrow> event list" where
  "registry_events opts =
     (if Provided (schemaRegistry opts) then testHost_events (String_of (schemaRegistry opts))
      else [])"

text \<open>
  What completion by prompts on a context may do: it leaves the store, the name and
  \<^verbatim>\<open>--current\<close> alone, it never withdraws the bootstrap servers, it provides them only when
  the context has none, and it opens no connection.
\<close>

definition prompt_rel :: "Context \<Rightarrow> createContextOptions \<Rightarrow> createContextOptions \<Rightarrow> bool" where
  "prompt_rel context s s' =
     (config s' = config s \<and> name s' = name s \<and> currContext s' = currContext s \<and>
      (Provided (bootstrapServers s) \<longrightarrow> Provided (bootstrapServers s')) \<and>
      (Provided (bootstrapServers s') \<longrightarrow>
         Provided (bootstrapServers s) \<or> BootstrapServers context = []))"

definition only_prompts :: "Context \<Rightarrow> (createContextOptions, 'a) eff \<Rightarrow> bool" where
  "only_prompts context m =
     (\<forall>s r s' t. m s = (r, s', t) \<longrightarrow> prompt_rel context s s' \<and> connections t = [])"

definition dev_store :: Configuration where
  "dev_store =
     \<lparr>KaftaData = \<lparr>CurrentContext = ''dev'', Contexts = [''dev'' \<mapsto> dev_context]\<rparr>\<rparr>"

text \<open>\<^verbatim>\<open>set-context dev --algorithm=scram\<close> on a store that holds \<^verbatim>\<open>dev\<close>.\<close>

definition edit_options :: createContextOptions where
  "edit_options =
     (NewCmdConfigSetContext_options dev_store)\<lparr>name := ''dev'', algorithm := given ''scram''\<rparr>"

text \<open>\<^verbatim>\<open>set-context dev --server=b9:9092\<close> on the same store.\<close>

definition server_options :: createContextOptions where
  "server_options =
     (NewCmdConfigSetContext_options dev_store)
       \<lparr>name := ''dev'', bootstrapServers := given ''b9:9092''\<rparr>"

text \<open>Quiet options with \<^verbatim>\<open>--sasl\<close>, a username and a password, for a new context.\<close>

definition sasl_options :: createContextOptions where
  "sasl_options =
     dev_options\<lparr>useSASL := given ''true'', user := given ''ann'', password := given ''pw'',
                 quiet := True\<rparr>"

definition sasl_server_options :: createContextOptions where
  "sasl_server_options = sasl_options\<lparr>bootstrapServers := given ''b1:9092''\<rparr>"

text \<open>The events of the table that get-configs prints for a broker id.\<close>

definition config_rows :: "kafka_collab \<Rightarrow> ConfigEntry list \<Rightarrow> event list" where
  "config_rows env cs =
     map (\<lambda>c. Printed (entry_Name c @ [CHR 0x09] @ Wrap env (entry_Value c) 100 @ [CHR 0x09]
                          @ fmt_bool (entry_Default c) @ [CHR 0x0A])) cs"

definition table_events :: "kafka_collab \<Rightarrow> Configuration \<Rightarrow> string \<Rightarrow> event list" where
  "table_events env cfg bid =
     [MadeConnection, DescribedBrokerConfig bid,
      Printed (''NAME'' @ [CHR 0x09] @ ''VALUE'' @ [CHR 0x09] @ ''DEFAULT'')]
     @ config_rows env (DescribeBrokerConfig env cfg bid) @ [ClosedConnection]"

definition three_brokers :: kafka_collab where
  "three_brokers =
     \<lparr>GetBrokers = (\<lambda>cfg. [\<lparr>ID = 1, IsController = False\<rparr>, \<lparr>ID = 2, IsController = True\<rparr>,
                           \<lparr>ID = 3, IsController = True\<rparr>]),
      DescribeBrokerConfig = (\<lambda>cfg bid.
        [\<lparr>entry_Name = ''log.dirs'', entry_Value = ''/data'', entry_Default = False\<rparr>]),
      Wrap = (\<lambda>v w. v)\<rparr>"

definition no_controller :: kafka_collab where
  "no_controller =
     \<lparr>GetBrokers = (\<lambda>cfg. [\<lparr>ID = 1, IsController = False\<rparr>]),
      DescribeBrokerConfig = (\<lambda>cfg bid.
        [\<lparr>entry_Name = ''log.dirs'', entry_Value = ''/data'', entry_Default = False\<rparr>]),
      Wrap = (\<lambda>v w. v)\<rparr>"

text \<open>
  \<^verbatim>\<open>set-context dev --ksql=k:8088 --schema-registry=noport\<close> on an empty store, and the
  quiet SASL options without the username.
\<close>

definition registry_noport_options :: createContextOptions where
  "registry_noport_options =
     dev_options\<lparr>ksql := given ''k:8088'', schemaRegistry := given ''noport''\<rparr>"

definition sasl_no_user_options :: createContextOptions where
  "sasl_no_user_options = sasl_options\<lparr>user := unset_flag\<rparr>"

section \<open>Proofs\<close>

subsection \<open>Auxiliary facts about the merge\<close>

lemmas eff_defs = ret_def fail_def emit_def get_def modify_def bindE_def



lemma if_Ksql: "(if P then r\<lparr>Ksql := x\<rparr> else r) = r\<lparr>Ksql := (if P then x else Ksql r)\<rparr>"
  by simp
lemma if_SchemaRegistry:
  "(if P then r\<lparr>SchemaRegistry := x\<rparr> else r) = r\<lparr>SchemaRegistry := (if P then x else SchemaRegistry r)\<rparr>"
  by simp
lemma if_BootstrapServers:
  "(if P then r\<lparr>BootstrapServers := x\<rparr> else r) = r\<lparr>BootstrapServers := (if P then x else BootstrapServers r)\<rparr>"
  by simp
lemma if_UseSASL: "(if P then r\<lparr>UseSASL := True\<rparr> else r) = r\<lparr>UseSASL := (P \<or> UseSASL r)\<rparr>"
  by simp
lemma if_Algorithm:
  "(if P then r\<lparr>SASL := (SASL r)\<lparr>Algorithm := x\<rparr>\<rparr> else r)
     = r\<lparr>SASL := (SASL r)\<lparr>Algorithm := (if P then x else Algorithm (SASL r))\<rparr>\<rparr>"
  by simp
lemma if_Username:
  "(if P then r\<lparr>SASL := (SASL r)\<lparr>Username := x\<rparr>\<rparr> else r)
     = r\<lparr>SASL := (SASL r)\<lparr>Username := (if P then x else Username (SASL r))\<rparr>\<rparr>"
  by simp
lemma if_Password:
  "(if P then r\<lparr>SASL := (SASL r)\<lparr>Password := x\<rparr>\<rparr> else r)
     = r\<lparr>SASL := (SASL r)\<lparr>Password := (if P then x else Password (SASL r))\<rparr>\<rparr>"
  by simp

lemmas if_updates = if_Ksql if_SchemaRegistry if_BootstrapServers if_UseSASL if_Algorithm
  if_Username if_Password

lemma modifyContext_eq:
  "modifyContext env opts b =
     (if parsedVersion opts = [] then Inr (merged opts (KafkaVersion b) b)
      else (case ParseKafkaVersion env (parsedVersion opts) of
              Inl err \<Rightarrow> Inl (Exited err)
            | Inr v \<Rightarrow> Inr (merged opts v b)))"
proof (cases "parsedVersion opts = []")
  case True
  then show ?thesis
    unfolding modifyContext_def Let_def if_updates merged_def
    by (simp split del: if_split cong: if_cong)
next
  case False
  show ?thesis
  proof (cases "ParseKafkaVersion env (parsedVersion opts)")
    case (Inl err)
    with False show ?thesis
      unfolding modifyContext_def Let_def by simp
  next
    case (Inr v)
    with False show ?thesis
      unfolding modifyContext_def Let_def if_updates merged_def
      by (simp split del: if_split cong: if_cong)
  qed
qed

lemma modifyContext_Inr:
  "modifyContext env opts b = Inr c \<Longrightarrow> \<exists>v. c = merged opts v b \<and> (parsedVersion opts = [] \<longrightarrow> v = KafkaVersion b)"
  by (auto simp add: modifyContext_eq split: if_splits sum.splits)

lemma merged_merged: "merged opts v (merged opts w b) = merged opts v b"
  by (simp add: merged_def)

lemma KafkaVersion_merged: "KafkaVersion (merged opts v b) = v"
  by (simp add: merged_def)

lemma complete_parsedVersion:
  "complete args opts0 = (Inr u, opts, t) \<Longrightarrow> parsedVersion opts0 = [] \<Longrightarrow>
   \<not> Provided (version opts) \<Longrightarrow> parsedVersion opts = []"
  by (auto simp add: complete_def ret_def fail_def get_def modify_def bindE_def split: if_splits)

lemma TLS_update_same: "(b\<lparr>TLS := x\<rparr> = b) = (TLS b = x)"
proof
  assume "b\<lparr>TLS := x\<rparr> = b"
  then have "TLS (b\<lparr>TLS := x\<rparr>) = TLS b" by simp
  then show "TLS b = x" by simp
next
  assume "TLS b = x"
  then show "b\<lparr>TLS := x\<rparr> = b" by auto
qed

lemmas example_defs = NewCmdConfigSetContext_options_def unset_flag_def Provided_def Value_def
  String_of_def Set_flag_def given_def zero_context_def dev_context_def dev_options_def
  empty_store_def friendly_env_def hostile_env_def

subsection \<open>C2: fields whose flag is not provided\<close>

text \<open>
  C2, as stated, fails: the options as the command builds them, with no flag provided, merged
  into a context stored with TLS off, give a context with TLS on, which is not the base.
\<close>

theorem modifyContext_no_overrides_changes_TLS:
  "\<not> Provided (ksql dev_options) \<and>
   \<not> Provided (schemaRegistry dev_options) \<and>
   \<not> Provided (bootstrapServers dev_options) \<and>
   \<not> Provided (version dev_options) \<and>
   \<not> Provided (useSASL dev_options) \<and>
   \<not> Provided (algorithm dev_options) \<and>
   \<not> Provided (user dev_options) \<and>
   \<not> Provided (password dev_options) \<and>
   modifyContext friendly_env dev_options dev_context = Inr (dev_context\<lparr>TLS := True\<rparr>) \<and>
   dev_context\<lparr>TLS := True\<rparr> \<noteq> dev_context"
  by (simp add: modifyContext_eq merged_def example_defs)

text \<open>
  C2, amended: when the merge returns, every field with provenance whose flag is not
  provided keeps the value of the base (for the version, the merge reads \<open>parsedVersion\<close>,
  which \<^verbatim>\<open>complete\<close> leaves empty when \<^verbatim>\<open>--version\<close> is not provided); \<open>TLS\<close> has no
  provenance and takes the value of the flag. With no flag provided the result is the base
  with \<open>TLS\<close> set to the flag, which is the base exactly when the two agree.
\<close>

theorem modifyContext_keeps_unprovided_fields:
  "(modifyContext env opts b = Inr c \<longrightarrow>
      (\<not> Provided (ksql opts) \<longrightarrow> Ksql c = Ksql b) \<and>
      (\<not> Provided (schemaRegistry opts) \<longrightarrow> SchemaRegistry c = SchemaRegistry b) \<and>
      (\<not> Provided (bootstrapServers opts) \<longrightarrow> BootstrapServers c = BootstrapServers b) \<and>
      (parsedVersion opts = [] \<longrightarrow> KafkaVersion c = KafkaVersion b) \<and>
      (\<not> Provided (useSASL opts) \<longrightarrow> UseSASL c = UseSASL b) \<and>
      (\<not> Provided (algorithm opts) \<longrightarrow> Algorithm (SASL c) = Algorithm (SASL b)) \<and>
      (\<not> Provided (user opts) \<longrightarrow> Username (SASL c) = Username (SASL b)) \<and>
      (\<not> Provided (password opts) \<longrightarrow> Password (SASL c) = Password (SASL b)) \<and>
      (\<not> Provided (ksql opts) \<and> \<not> Provided (schemaRegistry opts) \<and>
       \<not> Provided (bootstrapServers opts) \<and> parsedVersion opts = [] \<and>
       \<not> Provided (useSASL opts) \<and> \<not> Provided (algorithm opts) \<and>
       \<not> Provided (user opts) \<and> \<not> Provided (password opts)
       \<longrightarrow> c = b\<lparr>TLS := useTLS opts\<rparr> \<and> (c = b \<longleftrightarrow> TLS b = useTLS opts))) \<and>
   (complete args opts0 = (Inr u, opts, t) \<and> parsedVersion opts0 = [] \<and>
      \<not> Provided (version opts) \<longrightarrow> parsedVersion opts = [])"
proof (intro conjI impI)
  assume "complete args opts0 = (Inr u, opts, t) \<and> parsedVersion opts0 = [] \<and>
      \<not> Provided (version opts)"
  then show "parsedVersion opts = []"
    using complete_parsedVersion by blast
next
  assume m: "modifyContext env opts b = Inr c"
  then obtain v where c: "c = merged opts v b"
    and v: "parsedVersion opts = [] \<longrightarrow> v = KafkaVersion b"
    using modifyContext_Inr by blast
  { assume "\<not> Provided (ksql opts)" then show "Ksql c = Ksql b" by (simp add: c merged_def) }
  { assume "\<not> Provided (schemaRegistry opts)"
    then show "SchemaRegistry c = SchemaRegistry b" by (simp add: c merged_def) }
  { assume "\<not> Provided (bootstrapServers opts)"
    then show "BootstrapServers c = BootstrapServers b" by (simp add: c merged_def) }
  { assume "parsedVersion opts = []"
    then show "KafkaVersion c = KafkaVersion b" using v by (simp add: c merged_def) }
  { assume "\<not> Provided (useSASL opts)"
    then show "UseSASL c = UseSASL b" by (simp add: c merged_def) }
  { assume "\<not> Provided (algorithm opts)"
    then show "Algorithm (SASL c) = Algorithm (SASL b)" by (simp add: c merged_def) }
  { assume "\<not> Provided (user opts)"
    then show "Username (SASL c) = Username (SASL b)" by (simp add: c merged_def) }
  { assume "\<not> Provided (password opts)"
    then show "Password (SASL c) = Password (SASL b)" by (simp add: c merged_def) }
  { assume none: "\<not> Provided (ksql opts) \<and> \<not> Provided (schemaRegistry opts) \<and>
       \<not> Provided (bootstrapServers opts) \<and> parsedVersion opts = [] \<and>
       \<not> Provided (useSASL opts) \<and> \<not> Provided (algorithm opts) \<and>
       \<not> Provided (user opts) \<and> \<not> Provided (password opts)"
    with v have eq: "c = b\<lparr>TLS := useTLS opts\<rparr>"
      by (simp add: c merged_def)
    then show "c = b\<lparr>TLS := useTLS opts\<rparr>" .
    from eq show "(c = b) = (TLS b = useTLS opts)"
      by (simp add: TLS_update_same) }
qed

theorem modifyContext_keeps_unprovided_fields_witness:
  "modifyContext friendly_env dev_options dev_context = Inr (dev_context\<lparr>TLS := True\<rparr>) \<and>
   complete [''dev''] (NewCmdConfigSetContext_options empty_store) = (Inr (), dev_options, []) \<and>
   parsedVersion (NewCmdConfigSetContext_options empty_store) = [] \<and>
   \<not> Provided (version dev_options) \<and>
   parsedVersion dev_options = [] \<and>
   Ksql (dev_context\<lparr>TLS := True\<rparr>) = Ksql dev_context \<and>
   BootstrapServers (dev_context\<lparr>TLS := True\<rparr>) = BootstrapServers dev_context \<and>
   KafkaVersion (dev_context\<lparr>TLS := True\<rparr>) = KafkaVersion dev_context \<and>
   Username (SASL (dev_context\<lparr>TLS := True\<rparr>)) = Username (SASL dev_context)"
proof -
  have m: "modifyContext friendly_env dev_options dev_context = Inr (dev_context\<lparr>TLS := True\<rparr>)"
    by (simp add: modifyContext_eq merged_def example_defs)
  have c: "complete [''dev''] (NewCmdConfigSetContext_options empty_store)
             = (Inr (), dev_options, [])"
    by (simp add: complete_def eff_defs example_defs)
  have p: "parsedVersion (NewCmdConfigSetContext_options empty_store) = []"
    "\<not> Provided (version dev_options)"
    "\<not> Provided (ksql dev_options)" "\<not> Provided (bootstrapServers dev_options)"
    "\<not> Provided (user dev_options)"
    by (simp_all add: example_defs)
  from modifyContext_keeps_unprovided_fields
         [of friendly_env dev_options dev_context "dev_context\<lparr>TLS := True\<rparr>"
             "[''dev'']" "NewCmdConfigSetContext_options empty_store" "()" "[]"]
       m c p
  show ?thesis by simp
qed

subsection \<open>C3: the SASL latch\<close>

text \<open>
  C3, as stated, fails: with only the username provided, the merge of a context that has
  SASL off leaves SASL off.
\<close>

theorem modifyContext_username_alone_keeps_SASL_off:
  "Provided (user (dev_options\<lparr>user := given ''bob''\<rparr>)) \<and>
   modifyContext friendly_env (dev_options\<lparr>user := given ''bob''\<rparr>) dev_context
     = Inr (dev_context\<lparr>SASL := (SASL dev_context)\<lparr>Username := ''bob''\<rparr>, TLS := True\<rparr>) \<and>
   \<not> UseSASL (dev_context\<lparr>SASL := (SASL dev_context)\<lparr>Username := ''bob''\<rparr>, TLS := True\<rparr>)"
  by (simp add: modifyContext_eq merged_def example_defs)

text \<open>
  C3, amended: when the merge returns, SASL is on in the result exactly when the \<^verbatim>\<open>--sasl\<close>
  flag is provided or SASL was on in the base. So a provided \<^verbatim>\<open>--sasl\<close> turns it on, the
  algorithm, username and password flags alone leave it as it was, and no merge turns it
  from on to off.
\<close>

theorem modifyContext_SASL_latch:
  "modifyContext env opts b = Inr c \<Longrightarrow>
   (UseSASL c \<longleftrightarrow> Provided (useSASL opts) \<or> UseSASL b) \<and>
   (Provided (useSASL opts) \<longrightarrow> UseSASL c) \<and>
   (\<not> Provided (useSASL opts) \<longrightarrow> UseSASL c = UseSASL b) \<and>
   (UseSASL b \<longrightarrow> UseSASL c)"
proof -
  assume "modifyContext env opts b = Inr c"
  then obtain v where "c = merged opts v b"
    using modifyContext_Inr by blast
  then have "UseSASL c = (Provided (useSASL opts) \<or> UseSASL b)"
    by (simp add: merged_def)
  then show ?thesis by simp
qed

theorem modifyContext_SASL_latch_witness:
  "modifyContext friendly_env (dev_options\<lparr>useSASL := given ''true''\<rparr>) dev_context
     = Inr (dev_context\<lparr>UseSASL := True, TLS := True\<rparr>) \<and>
   Provided (useSASL (dev_options\<lparr>useSASL := given ''true''\<rparr>)) \<and>
   UseSASL (dev_context\<lparr>UseSASL := True, TLS := True\<rparr>)"
proof -
  have m: "modifyContext friendly_env (dev_options\<lparr>useSASL := given ''true''\<rparr>) dev_context
     = Inr (dev_context\<lparr>UseSASL := True, TLS := True\<rparr>)"
    by (simp add: modifyContext_eq merged_def example_defs)
  from modifyContext_SASL_latch [OF m] m show ?thesis
    by (simp add: example_defs)
qed

subsection \<open>C4: TLS follows the flag\<close>

text \<open>
  C4: when the merge returns, the \<open>TLS\<close> field of the result is the current value of the
  \<^verbatim>\<open>--tls\<close> flag, whatever the base holds; the options record no provenance for this flag,
  and the command builds them with the flag's default, true.
\<close>

theorem modifyContext_TLS_is_flag:
  "(modifyContext env opts b = Inr c \<longrightarrow> TLS c = useTLS opts) \<and>
   useTLS (NewCmdConfigSetContext_options cfg) = True"
proof
  show "modifyContext env opts b = Inr c \<longrightarrow> TLS c = useTLS opts"
  proof
    assume "modifyContext env opts b = Inr c"
    then obtain v where "c = merged opts v b"
      using modifyContext_Inr by blast
    then show "TLS c = useTLS opts"
      by (simp add: merged_def)
  qed
  show "useTLS (NewCmdConfigSetContext_options cfg) = True"
    by (simp add: NewCmdConfigSetContext_options_def)
qed

theorem modifyContext_TLS_is_flag_witness:
  "modifyContext friendly_env (dev_options\<lparr>useTLS := False\<rparr>) (dev_context\<lparr>TLS := True\<rparr>)
     = Inr (dev_context\<lparr>TLS := False\<rparr>) \<and>
   TLS (dev_context\<lparr>TLS := False\<rparr>) = useTLS (dev_options\<lparr>useTLS := False\<rparr>)"
proof -
  have m: "modifyContext friendly_env (dev_options\<lparr>useTLS := False\<rparr>) (dev_context\<lparr>TLS := True\<rparr>)
     = Inr (dev_context\<lparr>TLS := False\<rparr>)"
    by (simp add: modifyContext_eq merged_def example_defs)
  from modifyContext_TLS_is_flag
         [of friendly_env "dev_options\<lparr>useTLS := False\<rparr>" "dev_context\<lparr>TLS := True\<rparr>"
             "dev_context\<lparr>TLS := False\<rparr>" empty_store] m
  show ?thesis by simp
qed

subsection \<open>C5: idempotence\<close>

text \<open>
  C5: merging the same options into the result of a merge gives that result again. (A merge
  that ends the process on an unparsable version gives no context to merge again.)
\<close>

theorem modifyContext_idempotent:
  "modifyContext env opts b = Inr c \<Longrightarrow> modifyContext env opts c = Inr c"
proof -
  assume m: "modifyContext env opts b = Inr c"
  show ?thesis
  proof (cases "parsedVersion opts = []")
    case True
    with m have "c = merged opts (KafkaVersion b) b"
      by (simp add: modifyContext_eq)
    with True show ?thesis
      by (simp add: modifyContext_eq merged_merged KafkaVersion_merged)
  next
    case False
    with m obtain v where "ParseKafkaVersion env (parsedVersion opts) = Inr v"
      and "c = merged opts v b"
      by (auto simp add: modifyContext_eq split: sum.splits)
    with False show ?thesis
      by (simp add: modifyContext_eq merged_merged)
  qed
qed

theorem modifyContext_idempotent_witness:
  "modifyContext friendly_env
     (dev_options\<lparr>bootstrapServers := given ''b2:9092,b3:9092'', parsedVersion := ''3.0.0''\<rparr>)
     dev_context
     = Inr (dev_context\<lparr>BootstrapServers := [''b2:9092'', ''b3:9092''],
                        KafkaVersion := ''3.0.0'', TLS := True\<rparr>) \<and>
   modifyContext friendly_env
     (dev_options\<lparr>bootstrapServers := given ''b2:9092,b3:9092'', parsedVersion := ''3.0.0''\<rparr>)
     (dev_context\<lparr>BootstrapServers := [''b2:9092'', ''b3:9092''],
                  KafkaVersion := ''3.0.0'', TLS := True\<rparr>)
     = Inr (dev_context\<lparr>BootstrapServers := [''b2:9092'', ''b3:9092''],
                        KafkaVersion := ''3.0.0'', TLS := True\<rparr>)"
proof -
  have m: "modifyContext friendly_env
     (dev_options\<lparr>bootstrapServers := given ''b2:9092,b3:9092'', parsedVersion := ''3.0.0''\<rparr>)
     dev_context
     = Inr (dev_context\<lparr>BootstrapServers := [''b2:9092'', ''b3:9092''],
                        KafkaVersion := ''3.0.0'', TLS := True\<rparr>)"
    by (simp add: modifyContext_eq merged_def example_defs)
  from modifyContext_idempotent [OF m] m show ?thesis by simp
qed

subsection \<open>C10: only the provenance of the SASL flag counts\<close>

text \<open>
  C10: when the \<^verbatim>\<open>--sasl\<close> flag is provided, with any value at all, the merge gives the same
  result as with any other value, and SASL is on in it; and whatever the options, a base
  with SASL on gives a result with SASL on.
\<close>

theorem modifyContext_SASL_value_ignored:
  "modifyContext env (opts\<lparr>useSASL := \<lparr>provided = True, flag_value = v\<rparr>\<rparr>) b
     = modifyContext env (opts\<lparr>useSASL := \<lparr>provided = True, flag_value = w\<rparr>\<rparr>) b \<and>
   (modifyContext env (opts\<lparr>useSASL := \<lparr>provided = True, flag_value = v\<rparr>\<rparr>) b = Inr c
      \<longrightarrow> UseSASL c) \<and>
   (UseSASL b \<and> modifyContext env opts b = Inr c' \<longrightarrow> UseSASL c')"
proof (intro conjI impI)
  show "modifyContext env (opts\<lparr>useSASL := \<lparr>provided = True, flag_value = v\<rparr>\<rparr>) b
     = modifyContext env (opts\<lparr>useSASL := \<lparr>provided = True, flag_value = w\<rparr>\<rparr>) b"
  proof -
    have "merged (opts\<lparr>useSASL := \<lparr>provided = True, flag_value = v\<rparr>\<rparr>) x b
            = merged (opts\<lparr>useSASL := \<lparr>provided = True, flag_value = w\<rparr>\<rparr>) x b" for x
      by (simp add: merged_def Provided_def)
    then show ?thesis
      by (simp add: modifyContext_eq split: sum.splits)
  qed
next
  assume "modifyContext env (opts\<lparr>useSASL := \<lparr>provided = True, flag_value = v\<rparr>\<rparr>) b = Inr c"
  then obtain x where "c = merged (opts\<lparr>useSASL := \<lparr>provided = True, flag_value = v\<rparr>\<rparr>) x b"
    using modifyContext_Inr by blast
  then show "UseSASL c"
    by (simp add: merged_def Provided_def)
next
  assume "UseSASL b \<and> modifyContext env opts b = Inr c'"
  then obtain x where "UseSASL b" and "c' = merged opts x b"
    using modifyContext_Inr by blast
  then show "UseSASL c'"
    by (simp add: merged_def)
qed

theorem modifyContext_SASL_value_ignored_witness:
  "modifyContext friendly_env (dev_options\<lparr>useSASL := \<lparr>provided = True, flag_value = ''false''\<rparr>\<rparr>)
     dev_context = Inr (dev_context\<lparr>UseSASL := True, TLS := True\<rparr>) \<and>
   modifyContext friendly_env (dev_options\<lparr>useSASL := \<lparr>provided = True, flag_value = []\<rparr>\<rparr>)
     dev_context = Inr (dev_context\<lparr>UseSASL := True, TLS := True\<rparr>) \<and>
   UseSASL (dev_context\<lparr>UseSASL := True, TLS := True\<rparr>)"
proof -
  have m: "modifyContext friendly_env
             (dev_options\<lparr>useSASL := \<lparr>provided = True, flag_value = ''false''\<rparr>\<rparr>) dev_context
           = Inr (dev_context\<lparr>UseSASL := True, TLS := True\<rparr>)"
    by (simp add: modifyContext_eq merged_def example_defs)
  from modifyContext_SASL_value_ignored
         [where env = friendly_env and opts = dev_options and v = "''false''"
            and b = dev_context and w = "[]"
            and c = "dev_context\<lparr>UseSASL := True, TLS := True\<rparr>"] m
  show ?thesis by simp
qed

subsection \<open>Auxiliary facts about validation\<close>

lemma length_strings_Split: "length (strings_Split s sep) = Suc (count_list s sep)"
proof (induction s)
  case Nil
  then show ?case by simp
next
  case (Cons c cs)
  then show ?case
    by (cases "strings_Split cs sep") auto
qed

lemma lacks_port_iff: "lacks_port a \<longleftrightarrow> CHR '':'' \<notin> set a"
  by (simp add: lacks_port_def length_strings_Split count_list_0_iff)

lemma testHost_eq: "testHost env a s = (Inr (reachable env a), s, testHost_events a)"
  by (simp add: testHost_def lacks_port_def reachable_def testHost_events_def eff_defs)

lemma validate_unfold:
  "validate env s =
     (if name s = [] \<and> \<not> currContext s
      then (Inl (Returned (Error ''you must specify a non-empty context name or --current'')), s, [])
      else if name s \<noteq> [] \<and> currContext s
      then (Inl (Returned (Error ''you cannot specify both a context name and --current'')), s, [])
      else if Provided (ksql s) \<and> \<not> reachable env (String_of (ksql s))
      then (Inl (Returned (Error ''failed to connect on ksql'')), s, ksql_events s)
      else if Provided (schemaRegistry s) \<and> \<not> reachable env (String_of (schemaRegistry s))
      then (Inl (Returned (Error ''failed to connect on schema-registry'')), s,
            ksql_events s @ registry_events s)
      else if Provided (useSASL s) \<and> quiet s \<and> (\<not> Provided (user s) \<or> \<not> Provided (password s))
      then (Inl (Returned (Error ''user flag is required if SASL is provided'')), s,
            ksql_events s @ registry_events s)
      else (Inr (), s, ksql_events s @ registry_events s))"
  by (simp add: validate_def eff_defs testHost_eq ksql_events_def registry_events_def)

lemma validate_state: "validate env s = (r, s', t) \<Longrightarrow> s' = s"
  by (simp add: validate_unfold split: if_splits)

lemma validate_no_Exited: "validate env s = (r, s', t) \<Longrightarrow> r \<noteq> Inl (Exited e)"
  by (auto simp add: validate_unfold split: if_splits)

lemma connections_append [simp]: "connections (xs @ ys) = connections xs @ connections ys"
  by (induction xs rule: connections.induct) simp_all

lemma connections_testHost_events [simp]: "connections (testHost_events a) = []"
  by (simp add: testHost_events_def)

lemma connections_validate_events [simp]:
  "connections (ksql_events s) = []" "connections (registry_events s) = []"
  by (simp_all add: ksql_events_def registry_events_def)

lemma validate_connections: "validate env s = (r, s', t) \<Longrightarrow> connections t = []"
  by (auto simp add: validate_unfold split: if_splits)

lemma Dialed_testHost_events: "Dialed b \<in> set (testHost_events a) \<Longrightarrow> \<not> lacks_port b"
  by (auto simp add: testHost_events_def split: if_splits)

lemma Dialed_validate_events:
  "Dialed b \<in> set (ksql_events s) \<Longrightarrow> \<not> lacks_port b"
  "Dialed b \<in> set (registry_events s) \<Longrightarrow> \<not> lacks_port b"
  by (auto simp add: ksql_events_def registry_events_def dest: Dialed_testHost_events
      split: if_splits)

subsection \<open>C6: a name or the current context, not both\<close>

text \<open>
  C6: validation rejects a name together with \<^verbatim>\<open>--current\<close>, and neither of them, each with
  its own message and before anything else is looked at; with exactly one of the two,
  validation gives neither of these errors, and passes when no address flag is provided
  and the SASL gate of quiet mode is not in play.
\<close>

theorem validate_name_or_current:
  "(name s \<noteq> [] \<and> currContext s \<longrightarrow>
      validate env s
        = (Inl (Returned (Error ''you cannot specify both a context name and --current'')), s, [])) \<and>
   (name s = [] \<and> \<not> currContext s \<longrightarrow>
      validate env s
        = (Inl (Returned (Error ''you must specify a non-empty context name or --current'')), s, [])) \<and>
   ((name s \<noteq> []) \<noteq> currContext s \<longrightarrow>
      fst (validate env s)
        \<noteq> Inl (Returned (Error ''you cannot specify both a context name and --current'')) \<and>
      fst (validate env s)
        \<noteq> Inl (Returned (Error ''you must specify a non-empty context name or --current''))) \<and>
   ((name s \<noteq> []) \<noteq> currContext s \<and> \<not> Provided (ksql s) \<and> \<not> Provided (schemaRegistry s) \<and>
    \<not> (Provided (useSASL s) \<and> quiet s) \<longrightarrow> validate env s = (Inr (), s, []))"
proof (intro conjI impI)
  assume "name s \<noteq> [] \<and> currContext s"
  then show "validate env s
        = (Inl (Returned (Error ''you cannot specify both a context name and --current'')), s, [])"
    by (simp add: validate_unfold)
next
  assume "name s = [] \<and> \<not> currContext s"
  then show "validate env s
        = (Inl (Returned (Error ''you must specify a non-empty context name or --current'')), s, [])"
    by (simp add: validate_unfold)
next
  assume one: "(name s \<noteq> []) \<noteq> currContext s"
  then show "fst (validate env s)
        \<noteq> Inl (Returned (Error ''you cannot specify both a context name and --current''))"
    by (simp add: validate_unfold)
  from one show "fst (validate env s)
        \<noteq> Inl (Returned (Error ''you must specify a non-empty context name or --current''))"
    by (simp add: validate_unfold)
next
  assume "(name s \<noteq> []) \<noteq> currContext s \<and> \<not> Provided (ksql s) \<and>
    \<not> Provided (schemaRegistry s) \<and> \<not> (Provided (useSASL s) \<and> quiet s)"
  then show "validate env s = (Inr (), s, [])"
    by (auto simp add: validate_unfold ksql_events_def registry_events_def)
qed

theorem validate_name_or_current_witness:
  "validate friendly_env (dev_options\<lparr>currContext := True\<rparr>)
     = (Inl (Returned (Error ''you cannot specify both a context name and --current'')),
        dev_options\<lparr>currContext := True\<rparr>, []) \<and>
   validate friendly_env (dev_options\<lparr>name := []\<rparr>)
     = (Inl (Returned (Error ''you must specify a non-empty context name or --current'')),
        dev_options\<lparr>name := []\<rparr>, []) \<and>
   validate friendly_env dev_options = (Inr (), dev_options, []) \<and>
   validate friendly_env (dev_options\<lparr>name := [], currContext := True\<rparr>)
     = (Inr (), dev_options\<lparr>name := [], currContext := True\<rparr>, [])"
proof -
  have both: "name (dev_options\<lparr>currContext := True\<rparr>) \<noteq> [] \<and>
              currContext (dev_options\<lparr>currContext := True\<rparr>)"
    by (simp add: example_defs)
  have neither: "name (dev_options\<lparr>name := []\<rparr>) = [] \<and> \<not> currContext (dev_options\<lparr>name := []\<rparr>)"
    by (simp add: example_defs)
  have named: "(name dev_options \<noteq> []) \<noteq> currContext dev_options \<and>
         \<not> Provided (ksql dev_options) \<and> \<not> Provided (schemaRegistry dev_options) \<and>
         \<not> (Provided (useSASL dev_options) \<and> quiet dev_options)"
    by (simp add: example_defs)
  have current: "(name (dev_options\<lparr>name := [], currContext := True\<rparr>) \<noteq> [])
           \<noteq> currContext (dev_options\<lparr>name := [], currContext := True\<rparr>) \<and>
         \<not> Provided (ksql (dev_options\<lparr>name := [], currContext := True\<rparr>)) \<and>
         \<not> Provided (schemaRegistry (dev_options\<lparr>name := [], currContext := True\<rparr>)) \<and>
         \<not> (Provided (useSASL (dev_options\<lparr>name := [], currContext := True\<rparr>)) \<and>
            quiet (dev_options\<lparr>name := [], currContext := True\<rparr>))"
    by (simp add: example_defs)
  note inst = validate_name_or_current [where env = friendly_env]
  from inst [THEN conjunct1, THEN mp, OF both]
       inst [THEN conjunct2, THEN conjunct1, THEN mp, OF neither]
       inst [THEN conjunct2, THEN conjunct2, THEN conjunct2, THEN mp, OF named]
       inst [THEN conjunct2, THEN conjunct2, THEN conjunct2, THEN mp, OF current]
  show ?thesis by (intro conjI)
qed

subsection \<open>C8: an address without a port\<close>

text \<open>
  C8, as stated, fails in its last part: validation looks at the ksql address before the
  schema-registry address, so with a well-formed ksql address and a schema-registry address
  without a port, the ksql address is dialled first and the schema-registry address is
  rejected after that TCP connect attempt.
\<close>

theorem validate_dials_ksql_before_rejecting_registry:
  "Provided (schemaRegistry registry_noport_options) \<and>
   lacks_port (String_of (schemaRegistry registry_noport_options)) \<and>
   validate friendly_env registry_noport_options
     = (Inl (Returned (Error ''failed to connect on schema-registry'')),
        registry_noport_options,
        [Dialed ''k:8088'', Printed (''Port is nedeed on noport!'' @ [CHR 0x0A])])"
proof -
  have l: "lacks_port ''noport''" "\<not> lacks_port ''k:8088''"
    by (simp_all add: lacks_port_iff)
  then show ?thesis
    by (simp add: validate_unfold ksql_events_def registry_events_def reachable_def
        testHost_events_def registry_noport_options_def example_defs)
qed

text \<open>
  C8, amended: an address is without a port exactly when it has no colon. For such an
  address the reachability check prints the message that names the address, answers
  unreachable and dials nothing; validation of options in which a provided ksql or
  schema-registry address has no port returns an error; every address that validation
  dials has a port, so an address without a port is never probed. A ksql address without
  a port is rejected with no dial at all; when the schema-registry address has no port,
  the only address validation may have dialled before rejecting it is the provided ksql
  address.
\<close>

theorem testHost_rejects_address_without_port:
  "(lacks_port a \<longleftrightarrow> CHR '':'' \<notin> set a) \<and>
   (lacks_port a \<longrightarrow>
      testHost env a st
        = (Inr False, st, [Printed (''Port is nedeed on '' @ a @ ''!'' @ [CHR 0x0A])])) \<and>
   ((Provided (ksql s) \<and> lacks_port (String_of (ksql s)) \<or>
     Provided (schemaRegistry s) \<and> lacks_port (String_of (schemaRegistry s)))
      \<longrightarrow> (\<exists>e t. validate env s = (Inl (Returned e), s, t))) \<and>
   (\<forall>b. Dialed b \<in> set (snd (snd (validate env s))) \<longrightarrow> \<not> lacks_port b) \<and>
   (Provided (ksql s) \<and> lacks_port (String_of (ksql s))
      \<longrightarrow> (\<forall>b. Dialed b \<notin> set (snd (snd (validate env s))))) \<and>
   (Provided (schemaRegistry s) \<and> lacks_port (String_of (schemaRegistry s))
      \<longrightarrow> (\<forall>b. Dialed b \<in> set (snd (snd (validate env s)))
                \<longrightarrow> Provided (ksql s) \<and> b = String_of (ksql s)))"
proof (intro conjI impI allI)
  show "lacks_port a \<longleftrightarrow> CHR '':'' \<notin> set a"
    by (rule lacks_port_iff)
next
  assume "lacks_port a"
  then show "testHost env a st
        = (Inr False, st, [Printed (''Port is nedeed on '' @ a @ ''!'' @ [CHR 0x0A])])"
    by (simp add: testHost_eq reachable_def testHost_events_def)
next
  assume "Provided (ksql s) \<and> lacks_port (String_of (ksql s)) \<or>
     Provided (schemaRegistry s) \<and> lacks_port (String_of (schemaRegistry s))"
  then show "\<exists>e t. validate env s = (Inl (Returned e), s, t)"
    by (auto simp add: validate_unfold reachable_def)
next
  fix b
  assume "Dialed b \<in> set (snd (snd (validate env s)))"
  then show "\<not> lacks_port b"
    by (auto simp add: validate_unfold dest: Dialed_validate_events split: if_splits)
next
  fix b
  assume k: "Provided (ksql s) \<and> lacks_port (String_of (ksql s))"
  then have "ksql_events s
               = [Printed (''Port is nedeed on '' @ String_of (ksql s) @ ''!'' @ [CHR 0x0A])]"
    by (simp add: ksql_events_def testHost_events_def)
  with k show "Dialed b \<notin> set (snd (snd (validate env s)))"
    by (simp add: validate_unfold reachable_def)
next
  fix b
  assume r: "Provided (schemaRegistry s) \<and> lacks_port (String_of (schemaRegistry s))"
  assume d: "Dialed b \<in> set (snd (snd (validate env s)))"
  from r have re: "registry_events s
               = [Printed (''Port is nedeed on '' @ String_of (schemaRegistry s) @ ''!''
                           @ [CHR 0x0A])]"
    by (simp add: registry_events_def testHost_events_def)
  from r d re have "Dialed b \<in> set (ksql_events s)"
    by (simp add: validate_unfold reachable_def split: if_splits)
  then have both: "Provided (ksql s) \<and> b = String_of (ksql s)"
    by (auto simp add: ksql_events_def testHost_events_def split: if_splits)
  from both show "Provided (ksql s)" by simp
  from both show "b = String_of (ksql s)" by simp
qed

theorem testHost_rejects_address_without_port_witness:
  "lacks_port ''noport'' \<and>
   testHost hostile_env ''noport'' dev_options
     = (Inr False, dev_options, [Printed (''Port is nedeed on noport!'' @ [CHR 0x0A])]) \<and>
   Provided (schemaRegistry registry_noport_options) \<and>
   lacks_port (String_of (schemaRegistry registry_noport_options)) \<and>
   (\<exists>e t. validate hostile_env registry_noport_options
            = (Inl (Returned e), registry_noport_options, t)) \<and>
   validate hostile_env registry_noport_options
     = (Inl (Returned (Error ''failed to connect on ksql'')), registry_noport_options,
        [Dialed ''k:8088'']) \<and>
   \<not> lacks_port ''k:8088'' \<and>
   Provided (ksql registry_noport_options) \<and>
   ''k:8088'' = String_of (ksql registry_noport_options)"
proof -
  let ?s = registry_noport_options
  have l: "lacks_port ''noport''" "\<not> lacks_port ''k:8088''"
    by (simp_all add: lacks_port_iff)
  have v: "validate hostile_env ?s
     = (Inl (Returned (Error ''failed to connect on ksql'')), ?s, [Dialed ''k:8088''])"
    by (simp add: validate_unfold ksql_events_def registry_events_def reachable_def
        testHost_events_def l registry_noport_options_def example_defs)
  have p: "Provided (schemaRegistry ?s) \<and> lacks_port (String_of (schemaRegistry ?s))"
    by (simp add: registry_noport_options_def example_defs l)
  have d: "Dialed ''k:8088'' \<in> set (snd (snd (validate hostile_env ?s)))"
    by (simp add: v)
  note inst = testHost_rejects_address_without_port
                [where a = "''noport''" and env = hostile_env and s = ?s and st = dev_options]
  note t = inst [THEN conjunct2, THEN conjunct1, THEN mp, OF l(1)]
  note f = inst [THEN conjunct2, THEN conjunct2, THEN conjunct1, THEN mp, OF disjI2, OF p]
  note n = inst [THEN conjunct2, THEN conjunct2, THEN conjunct2, THEN conjunct1, THEN spec,
                 THEN mp, OF d]
  note k = inst [THEN conjunct2, THEN conjunct2, THEN conjunct2, THEN conjunct2, THEN conjunct2,
                 THEN mp, OF p, THEN spec, THEN mp, OF d]
  from l(1) t p f v n k show ?thesis
    by simp
qed

subsection \<open>Auxiliary facts about completion and the run\<close>

lemma prompt_rel_refl: "prompt_rel context s s"
  by (simp add: prompt_rel_def)

lemma prompt_rel_trans:
  "prompt_rel context s s1 \<Longrightarrow> prompt_rel context s1 s2 \<Longrightarrow> prompt_rel context s s2"
  by (auto simp add: prompt_rel_def)

lemma only_prompts_ret: "only_prompts context (ret x)"
  by (simp add: only_prompts_def ret_def prompt_rel_refl)

lemma only_prompts_fail: "only_prompts context (fail e)"
  by (simp add: only_prompts_def fail_def prompt_rel_refl)

lemma only_prompts_get: "only_prompts context get"
  by (simp add: only_prompts_def get_def prompt_rel_refl)

lemma only_prompts_modify: "(\<And>s. prompt_rel context s (f s)) \<Longrightarrow> only_prompts context (modify f)"
  by (auto simp add: only_prompts_def modify_def)

lemma only_prompts_bind:
  assumes "only_prompts context m" and "\<And>x. only_prompts context (f x)"
  shows "only_prompts context (bindE m f)"
  unfolding only_prompts_def
proof (intro allI impI)
  fix s r s' t
  assume b: "bindE m f s = (r, s', t)"
  obtain r1 s1 t1 where m: "m s = (r1, s1, t1)"
    by (cases "m s") auto
  with assms(1) have 1: "prompt_rel context s s1" "connections t1 = []"
    by (auto simp add: only_prompts_def)
  show "prompt_rel context s s' \<and> connections t = []"
  proof (cases r1)
    case (Inl e)
    with b m 1 show ?thesis
      by (simp add: bindE_def)
  next
    case (Inr x)
    obtain r2 s2 t2 where f: "f x s1 = (r2, s2, t2)"
      by (cases "f x s1") auto
    with assms(2) have 2: "prompt_rel context s1 s2" "connections t2 = []"
      by (auto simp add: only_prompts_def)
    from b m Inr f have "s' = s2" "t = t1 @ t2"
      by (simp_all add: bindE_def)
    with 1 2 show ?thesis
      by (auto intro: prompt_rel_trans)
  qed
qed

lemma only_prompts_if:
  "(c \<Longrightarrow> only_prompts context a) \<Longrightarrow> (\<not> c \<Longrightarrow> only_prompts context b)
   \<Longrightarrow> only_prompts context (if c then a else b)"
  by simp

lemma only_prompts_prompt: "only_prompts context (prompt label answer)"
  by (auto simp add: only_prompts_def prompt_def eff_defs prompt_rel_refl split: sum.splits)

lemma only_prompts_promptNeeded: "only_prompts context (promptNeeded env context)"
  unfolding promptNeeded_def
  by (intro only_prompts_bind only_prompts_if only_prompts_get only_prompts_ret
      only_prompts_prompt only_prompts_modify)
    (simp_all add: prompt_rel_def Provided_def Set_flag_def)

lemma promptNeeded_quiet: "quiet s \<Longrightarrow> promptNeeded env context s = (Inr (), s, [])"
  by (simp add: promptNeeded_def eff_defs)

lemma promptNeeded_rel:
  "promptNeeded env context s = (r, s', t) \<Longrightarrow> prompt_rel context s s' \<and> connections t = []"
  using only_prompts_promptNeeded by (auto simp add: only_prompts_def)

lemma run_tail:
  "bindE (bindE (returned_error (promptNeeded env startingInstance)) CheckErr) (\<lambda>_.
     bindE get (\<lambda>opts1.
     bindE (\<lambda>s. (modifyContext env opts1 startingInstance, s, [])) (\<lambda>context.
     bindE (emit (PrintedContext context)) (\<lambda>_.
     bindE (returned_error (checkConnection env context)) (\<lambda>err.
     bindE (if err \<noteq> None
            then bindE (CheckErr err) (\<lambda>_.
                   fail (Returned (Error (''could not connect to ''
                                            @ fmt_strings (BootstrapServers context)))))
            else ret ()) (\<lambda>_.
     bindE (modify (\<lambda>o1. o1\<lparr>config := (config o1)\<lparr>KaftaData :=
              (KaftaData (config o1))\<lparr>Contexts :=
                 (Contexts (KaftaData (config o1)))(name' \<mapsto> context)\<rparr>\<rparr>\<rparr>)) (\<lambda>_.
     ret (name', exists)))))))) s
   = (case promptNeeded env startingInstance s of
        (Inl st, s1, tp) \<Rightarrow>
          (Inl (Exited (case st of Returned e \<Rightarrow> e | Exited e \<Rightarrow> e)), s1, tp)
      | (Inr u', s1, tp) \<Rightarrow>
          (case modifyContext env s1 startingInstance of
             Inl e \<Rightarrow> (Inl e, s1, tp)
           | Inr c \<Rightarrow>
               if Provided (bootstrapServers s1)
               then (case MakeConnectionContext env (config s1) c of
                       Some err \<Rightarrow>
                         (Inl (Exited err), s1, tp @ [PrintedContext c, Connected (config s1) c])
                     | None \<Rightarrow>
                         (Inr (name', exists), persist name' c s1,
                          tp @ [PrintedContext c, Connected (config s1) c]))
               else (Inr (name', exists), persist name' c s1, tp @ [PrintedContext c])))"
  (is "?lhs = ?rhs")
proof -
  obtain rp s1 tp where p: "promptNeeded env startingInstance s = (rp, s1, tp)"
    by (cases "promptNeeded env startingInstance s") auto
  show ?thesis
  proof (cases rp)
    case (Inl st)
    with p show ?thesis
      by (cases st) (simp_all add: bindE_def returned_error_def CheckErr_def fail_def ret_def)
  next
    case rp: (Inr u')
    show ?thesis
    proof (cases "modifyContext env s1 startingInstance")
      case (Inl e)
      with p rp show ?thesis
        by (simp add: bindE_def returned_error_def CheckErr_def fail_def ret_def get_def)
    next
      case m: (Inr c)
      show ?thesis
      proof (cases "Provided (bootstrapServers s1)")
        case False
        with p rp m show ?thesis
          by (simp add: eff_defs returned_error_def CheckErr_def checkConnection_def persist_def)
      next
        case True
        show ?thesis
        proof (cases "MakeConnectionContext env (config s1) c")
          case None
          with p rp m True show ?thesis
            by (simp add: eff_defs returned_error_def CheckErr_def checkConnection_def
                persist_def)
        next
          case (Some err)
          with p rp m True show ?thesis
            by (simp add: eff_defs returned_error_def CheckErr_def checkConnection_def)
        qed
      qed
    qed
  qed
qed

lemma lookup_starting_instance:
  "(case Contexts (KaftaData (config s)) (target_name s) of
      Some c \<Rightarrow> (c, True)
    | None \<Rightarrow> (MakeContext env, False)) = (starting_instance env s, stored s)"
  by (simp add: starting_instance_def stored_def split: option.splits)

lemma run_unfold:
  "run env s =
     (case validate env s of
        (Inl e, s0, tv) \<Rightarrow> (Inl e, s, tv)
      | (Inr u, s0, tv) \<Rightarrow>
          if currContext s \<and> CurrentContext (KaftaData (config s)) = []
          then (Inl (Returned (Error ''no current context is set'')), s, tv)
          else
            (case promptNeeded env (starting_instance env s) s of
               (Inl st, s1, tp) \<Rightarrow>
                 (Inl (Exited (case st of Returned e \<Rightarrow> e | Exited e \<Rightarrow> e)), s1, tv @ tp)
             | (Inr u', s1, tp) \<Rightarrow>
                 (case modifyContext env s1 (starting_instance env s) of
                    Inl e \<Rightarrow> (Inl e, s1, tv @ tp)
                  | Inr c \<Rightarrow>
                      if Provided (bootstrapServers s1)
                      then (case MakeConnectionContext env (config s1) c of
                              Some err \<Rightarrow>
                                (Inl (Exited err), s1,
                                 tv @ tp @ [PrintedContext c, Connected (config s1) c])
                            | None \<Rightarrow>
                                (Inr (target_name s, stored s), persist (target_name s) c s1,
                                 tv @ tp @ [PrintedContext c, Connected (config s1) c]))
                      else (Inr (target_name s, stored s), persist (target_name s) c s1,
                            tv @ tp @ [PrintedContext c]))))"
proof -
  obtain rv tv where v: "validate env s = (rv, s, tv)"
    using validate_state by (cases "validate env s") auto
  show ?thesis
  proof (cases rv)
    case (Inl e)
    with v show ?thesis
      by (simp add: run_def bindE_def)
  next
    case rv: (Inr u)
    show ?thesis
    proof (cases "currContext s")
      case False
      then have n: "name s = target_name s"
        by (simp add: target_name_def)
      show ?thesis
        unfolding run_def
        apply (simp only: bindE_def [of "validate env"] v rv)
        apply (simp only: bindE_def [of get] get_def)
        apply (simp add: False bindE_def [of "ret (name s)"] ret_def [of "name s"]
            del: not_None_eq)
        apply (simp only: bindE_def [of get] get_def prod.case sum.case)
        apply (simp only: n lookup_starting_instance prod.case run_tail)
        apply (auto split: prod.splits sum.splits option.splits)
        done
    next
      case True
      show ?thesis
      proof (cases "CurrentContext (KaftaData (config s)) = []")
        case e: True
        show ?thesis
          unfolding run_def
          apply (simp only: bindE_def [of "validate env"] v rv)
          apply (simp only: bindE_def [of get] get_def)
          apply (simp add: True e bindE_def [of "fail (Returned (Error ''no current context is set''))"] fail_def)
          done
      next
        case e: False
        from True have n: "CurrentContext (KaftaData (config s)) = target_name s"
          by (simp add: target_name_def)
        show ?thesis
          unfolding run_def
          apply (simp only: bindE_def [of "validate env"] v rv)
          apply (simp only: bindE_def [of get] get_def)
          apply (simp add: True e bindE_def [of "ret (CurrentContext (KaftaData (config s)))"]
              ret_def [of "CurrentContext (KaftaData (config s))"] del: not_None_eq)
          apply (simp only: bindE_def [of get] get_def prod.case sum.case)
        apply (simp only: n lookup_starting_instance prod.case run_tail)
          apply (auto simp add: e True split: prod.splits sum.splits option.splits)
          done
      qed
    qed
  qed
qed

lemma config_persist: "bootstrapServers (persist n c s) = bootstrapServers s"
  "Contexts (KaftaData (config (persist n c s))) n = Some c"
  by (simp_all add: persist_def)

lemma run_facts:
  assumes "run env s = (r, s', t)"
  shows "(\<exists>e. r = Inl e \<and> config s' = config s \<and> connections t = []) \<or>
         (\<exists>e c. r = Inl (Exited e) \<and> config s' = config s \<and> Provided (bootstrapServers s') \<and>
                connections t = [(config s, c)] \<and> MakeConnectionContext env (config s) c = Some e) \<or>
         (\<exists>c. r = Inr (target_name s, stored s) \<and> Provided (bootstrapServers s') \<and>
              connections t = [(config s, c)] \<and> MakeConnectionContext env (config s) c = None \<and>
              Contexts (KaftaData (config s')) (target_name s) = Some c) \<or>
         (\<exists>c. r = Inr (target_name s, stored s) \<and> \<not> Provided (bootstrapServers s') \<and>
              connections t = [] \<and>
              Contexts (KaftaData (config s')) (target_name s) = Some c)"
proof -
  obtain rv tv where v: "validate env s = (rv, s, tv)"
    using validate_state by (cases "validate env s") auto
  then have tv: "connections tv = []"
    using validate_connections by blast
  obtain rp s1 tp where p: "promptNeeded env (starting_instance env s) s = (rp, s1, tp)"
    by (cases "promptNeeded env (starting_instance env s) s") auto
  then have rel: "config s1 = config s" and tp: "connections tp = []"
    using promptNeeded_rel by (auto simp add: prompt_rel_def)
  show ?thesis
  proof (cases rv)
    case (Inl e)
    with assms v tv show ?thesis
      by (auto simp add: run_unfold)
  next
    case rv: (Inr u)
    show ?thesis
    proof (cases "currContext s \<and> CurrentContext (KaftaData (config s)) = []")
      case True
      with assms v rv tv show ?thesis
        by (auto simp add: run_unfold)
    next
      case nc: False
      show ?thesis
      proof (cases rp)
        case (Inl st)
        with assms v rv nc p rel tv tp show ?thesis
          by (auto simp add: run_unfold)
      next
        case rp: (Inr u')
        show ?thesis
        proof (cases "modifyContext env s1 (starting_instance env s)")
          case (Inl e)
          with assms v rv nc p rp rel tv tp show ?thesis
            by (auto simp add: run_unfold)
        next
          case m: (Inr c)
          show ?thesis
          proof (cases "Provided (bootstrapServers s1)")
            case False
            with assms v rv nc p rp m rel tv tp show ?thesis
              by (auto simp add: run_unfold config_persist)
          next
            case True
            show ?thesis
            proof (cases "MakeConnectionContext env (config s) c")
              case None
              with assms v rv nc p rp m True rel tv tp show ?thesis
                by (auto simp add: run_unfold config_persist)
            next
              case (Some err)
              with assms v rv nc p rp m True rel tv tp show ?thesis
                by (auto simp add: run_unfold)
            qed
          qed
        qed
      qed
    qed
  qed
qed

lemma run_keeps_provided:
  assumes "run env s = (r, s', t)" and "Provided (bootstrapServers s)"
  shows "Provided (bootstrapServers s')"
proof -
  obtain rv tv where v: "validate env s = (rv, s, tv)"
    using validate_state by (cases "validate env s") auto
  obtain rp s1 tp where p: "promptNeeded env (starting_instance env s) s = (rp, s1, tp)"
    by (cases "promptNeeded env (starting_instance env s) s") auto
  with assms(2) have s1: "Provided (bootstrapServers s1)"
    using promptNeeded_rel by (auto simp add: prompt_rel_def)
  from assms v p s1 show ?thesis
    by (auto simp add: run_unfold config_persist split: sum.splits if_splits option.splits)
qed

lemma run_provided_origin:
  assumes "run env s = (r, s', t)" and "Provided (bootstrapServers s')"
  shows "Provided (bootstrapServers s) \<or>
         (\<not> quiet s \<and> BootstrapServers (starting_instance env s) = [])"
proof -
  obtain rv tv where v: "validate env s = (rv, s, tv)"
    using validate_state by (cases "validate env s") auto
  obtain rp s1 tp where p: "promptNeeded env (starting_instance env s) s = (rp, s1, tp)"
    by (cases "promptNeeded env (starting_instance env s) s") auto
  then have rel: "Provided (bootstrapServers s1) \<longrightarrow>
      Provided (bootstrapServers s) \<or> BootstrapServers (starting_instance env s) = []"
    using promptNeeded_rel by (auto simp add: prompt_rel_def)
  from p have q: "quiet s \<longrightarrow> s1 = s"
    by (auto simp add: promptNeeded_quiet)
  from assms v p have "Provided (bootstrapServers s) \<or> Provided (bootstrapServers s1)"
    by (auto simp add: run_unfold config_persist split: sum.splits if_splits option.splits)
  with rel q show ?thesis
    by auto
qed

lemmas run_example_defs = edit_options_def server_options_def sasl_options_def dev_store_def
  target_name_def starting_instance_def stored_def

lemma run_edit_example:
  "run hostile_env edit_options
     = (Inr (''dev'', True),
        persist ''dev'' (dev_context\<lparr>SASL := (SASL dev_context)\<lparr>Algorithm := ''scram''\<rparr>,
                                     TLS := True\<rparr>) edit_options,
        [Prompted ''Use SASL'',
         PrintedContext (dev_context\<lparr>SASL := (SASL dev_context)\<lparr>Algorithm := ''scram''\<rparr>,
                                      TLS := True\<rparr>)])"
proof -
  have v: "validate hostile_env edit_options = (Inr (), edit_options, [])"
    by (simp add: validate_unfold ksql_events_def registry_events_def run_example_defs
        example_defs)
  have n: "target_name edit_options = ''dev''" "stored edit_options"
    "starting_instance hostile_env edit_options = dev_context"
    "\<not> currContext edit_options"
    by (simp_all add: run_example_defs example_defs)
  have p: "promptNeeded hostile_env dev_context edit_options
             = (Inr (), edit_options, [Prompted ''Use SASL''])"
    by (simp add: promptNeeded_def eff_defs prompt_def run_example_defs example_defs)
  have m: "modifyContext hostile_env edit_options dev_context
             = Inr (dev_context\<lparr>SASL := (SASL dev_context)\<lparr>Algorithm := ''scram''\<rparr>, TLS := True\<rparr>)"
    by (simp add: modifyContext_eq merged_def run_example_defs example_defs)
  have b: "\<not> Provided (bootstrapServers edit_options)"
    by (simp add: run_example_defs example_defs)
  show ?thesis
    by (simp add: run_unfold v n p m b)
qed

lemma run_server_example:
  "run hostile_env server_options
     = (Inl (Exited (Error ''no broker'')), server_options,
        [Prompted ''Use SASL'',
         PrintedContext (dev_context\<lparr>BootstrapServers := [''b9:9092''], TLS := True\<rparr>),
         Connected dev_store (dev_context\<lparr>BootstrapServers := [''b9:9092''], TLS := True\<rparr>)])"
proof -
  have v: "validate hostile_env server_options = (Inr (), server_options, [])"
    by (simp add: validate_unfold ksql_events_def registry_events_def run_example_defs
        example_defs)
  have n: "target_name server_options = ''dev''" "stored server_options"
    "starting_instance hostile_env server_options = dev_context"
    "\<not> currContext server_options" "config server_options = dev_store"
    by (simp_all add: run_example_defs example_defs)
  have p: "promptNeeded hostile_env dev_context server_options
             = (Inr (), server_options, [Prompted ''Use SASL''])"
    by (simp add: promptNeeded_def eff_defs prompt_def run_example_defs example_defs)
  have m: "modifyContext hostile_env server_options dev_context
             = Inr (dev_context\<lparr>BootstrapServers := [''b9:9092''], TLS := True\<rparr>)"
    by (simp add: modifyContext_eq merged_def run_example_defs example_defs)
  have b: "Provided (bootstrapServers server_options)"
    by (simp add: run_example_defs example_defs)
  have c: "MakeConnectionContext hostile_env cfg ctx = Some (Error ''no broker'')" for cfg ctx
    by (simp add: hostile_env_def)
  show ?thesis
    by (simp add: run_unfold v n p m b c)
qed

lemma hostile_env_no_connection: "MakeConnectionContext hostile_env cfg c \<noteq> None"
  by (simp add: hostile_env_def)

subsection \<open>C1: the connection check before the store is written\<close>

text \<open>
  C1: for every run of set-context, whatever its result. A run that fails leaves the store
  as it was. Bootstrap servers provided by flag stay provided, and they are provided at
  the check only by the flag or by the prompt, which is asked outside quiet mode for a
  context that has none. When the bootstrap servers are provided at the check and every
  connection the run attempts fails, the run fails and the store is as it was; when such a
  run succeeds it has attempted exactly one connection, with the stored configuration and
  the very context it then stores, and that connection succeeded. When the bootstrap
  servers are not provided, the run attempts no connection. And a run can store a context
  without any connection: one does so in an environment in which every connection fails.
\<close>

theorem run_connection_check_gates_store:
  "(run env s = (r, s', t) \<longrightarrow>
      ((\<exists>e. r = Inl e) \<longrightarrow> config s' = config s) \<and>
      (Provided (bootstrapServers s) \<longrightarrow> Provided (bootstrapServers s')) \<and>
      (Provided (bootstrapServers s') \<longrightarrow>
         Provided (bootstrapServers s) \<or>
         (\<not> quiet s \<and> BootstrapServers (starting_instance env s) = [])) \<and>
      (Provided (bootstrapServers s') \<and>
       (\<forall>cfg c. (cfg, c) \<in> set (connections t) \<longrightarrow> MakeConnectionContext env cfg c \<noteq> None)
         \<longrightarrow> (\<exists>e. r = Inl e) \<and> config s' = config s) \<and>
      (Provided (bootstrapServers s') \<and> (\<exists>x. r = Inr x)
         \<longrightarrow> (\<exists>c. connections t = [(config s, c)] \<and>
                  MakeConnectionContext env (config s) c = None \<and>
                  r = Inr (target_name s, stored s) \<and>
                  Contexts (KaftaData (config s')) (target_name s) = Some c)) \<and>
      (\<not> Provided (bootstrapServers s') \<longrightarrow> connections t = [])) \<and>
   (\<exists>env0 s0 s1 t0 c0.
      (\<forall>cfg c. MakeConnectionContext env0 cfg c \<noteq> None) \<and>
      \<not> Provided (bootstrapServers s0) \<and>
      run env0 s0 = (Inr (target_name s0, stored s0), s1, t0) \<and>
      connections t0 = [] \<and>
      Contexts (KaftaData (config s1)) (target_name s0) = Some c0)"
proof (intro conjI impI)
  assume run: "run env s = (r, s', t)"
  note facts = run_facts [OF run]
  from facts show "config s' = config s" if "\<exists>e. r = Inl e"
    using that by auto
  show "Provided (bootstrapServers s')" if "Provided (bootstrapServers s)"
    using run that by (rule run_keeps_provided)
  show "Provided (bootstrapServers s) \<or>
         (\<not> quiet s \<and> BootstrapServers (starting_instance env s) = [])"
    if "Provided (bootstrapServers s')"
    using run that by (rule run_provided_origin)
  { assume h: "Provided (bootstrapServers s') \<and>
       (\<forall>cfg c. (cfg, c) \<in> set (connections t) \<longrightarrow> MakeConnectionContext env cfg c \<noteq> None)"
    with facts show "\<exists>e. r = Inl e" by auto
    with facts show "config s' = config s" by auto }
  from facts show "\<exists>c. connections t = [(config s, c)] \<and>
                  MakeConnectionContext env (config s) c = None \<and>
                  r = Inr (target_name s, stored s) \<and>
                  Contexts (KaftaData (config s')) (target_name s) = Some c"
    if "Provided (bootstrapServers s') \<and> (\<exists>x. r = Inr x)"
    using that by auto
  from facts show "connections t = []" if "\<not> Provided (bootstrapServers s')"
    using that by auto
next
  have "\<not> Provided (bootstrapServers edit_options)"
    by (simp add: run_example_defs example_defs)
  moreover have "target_name edit_options = ''dev''" "stored edit_options"
    by (simp_all add: run_example_defs example_defs)
  moreover note run_edit_example hostile_env_no_connection
  ultimately show "\<exists>env0 s0 s1 t0 c0.
      (\<forall>cfg c. MakeConnectionContext env0 cfg c \<noteq> None) \<and>
      \<not> Provided (bootstrapServers s0) \<and>
      run env0 s0 = (Inr (target_name s0, stored s0), s1, t0) \<and>
      connections t0 = [] \<and>
      Contexts (KaftaData (config s1)) (target_name s0) = Some c0"
    by (intro exI [of _ hostile_env] exI [of _ edit_options]
        exI [of _ "persist ''dev'' (dev_context\<lparr>SASL := (SASL dev_context)\<lparr>Algorithm := ''scram''\<rparr>,
                                     TLS := True\<rparr>) edit_options"]
        exI [of _ "[Prompted ''Use SASL'',
         PrintedContext (dev_context\<lparr>SASL := (SASL dev_context)\<lparr>Algorithm := ''scram''\<rparr>,
                                      TLS := True\<rparr>)]"]
        exI [of _ "dev_context\<lparr>SASL := (SASL dev_context)\<lparr>Algorithm := ''scram''\<rparr>,
                                     TLS := True\<rparr>"])
      (simp add: config_persist)
qed

theorem run_connection_check_gates_store_witness:
  "Provided (bootstrapServers server_options) \<and>
   run hostile_env server_options
     = (Inl (Exited (Error ''no broker'')), server_options,
        [Prompted ''Use SASL'',
         PrintedContext (dev_context\<lparr>BootstrapServers := [''b9:9092''], TLS := True\<rparr>),
         Connected dev_store (dev_context\<lparr>BootstrapServers := [''b9:9092''], TLS := True\<rparr>)]) \<and>
   MakeConnectionContext hostile_env dev_store
     (dev_context\<lparr>BootstrapServers := [''b9:9092''], TLS := True\<rparr>) \<noteq> None \<and>
   config server_options = dev_store"
proof -
  have b: "Provided (bootstrapServers server_options)" "config server_options = dev_store"
    by (simp_all add: run_example_defs example_defs)
  from run_connection_check_gates_store
         [where env = hostile_env and s = server_options
            and r = "Inl (Exited (Error ''no broker''))" and s' = server_options
            and t = "[Prompted ''Use SASL'',
         PrintedContext (dev_context\<lparr>BootstrapServers := [''b9:9092''], TLS := True\<rparr>),
         Connected dev_store (dev_context\<lparr>BootstrapServers := [''b9:9092''], TLS := True\<rparr>)]",
          THEN conjunct1, THEN mp, OF run_server_example]
       b run_server_example hostile_env_no_connection
  show ?thesis by simp
qed

subsection \<open>C7: SASL in quiet mode\<close>

lemma validate_sasl_missing:
  assumes "quiet s" and "Provided (useSASL s)"
    and "\<not> Provided (user s) \<or> \<not> Provided (password s)"
  shows "\<exists>e t. validate env s = (Inl (Returned e), s, t)"
  using assms by (simp add: validate_unfold)

lemma validate_sasl_present:
  assumes "Provided (user s)" and "Provided (password s)"
  shows "validate env s = (Inr (), s, ksql_events s @ registry_events s) \<longleftrightarrow>
         (name s \<noteq> []) \<noteq> currContext s \<and>
         (Provided (ksql s) \<longrightarrow> reachable env (String_of (ksql s))) \<and>
         (Provided (schemaRegistry s) \<longrightarrow> reachable env (String_of (schemaRegistry s)))"
  using assms by (auto simp add: validate_unfold)

lemma validate_Inr:
  "validate env s = (Inr u, s', t) \<Longrightarrow>
   validate env s = (Inr (), s, ksql_events s @ registry_events s)"
  by (auto simp add: validate_unfold split: if_splits)

lemma modifyContext_UseSASL:
  assumes "modifyContext env opts b = Inr c"
  shows "UseSASL c \<longleftrightarrow> Provided (useSASL opts) \<or> UseSASL b"
proof -
  from assms obtain v where "c = merged opts v b"
    using modifyContext_Inr by blast
  then show ?thesis
    by (simp add: merged_def)
qed

lemma modifyContext_version_gate:
  assumes "parsedVersion s = [] \<and> v = KafkaVersion b \<or>
           parsedVersion s \<noteq> [] \<and> ParseKafkaVersion env (parsedVersion s) = Inr v"
  shows "modifyContext env s b = Inr (merged s v b)"
  using assms by (auto simp add: modifyContext_eq)

text \<open>
  C7: in quiet mode with \<^verbatim>\<open>--sasl\<close> provided. When the username or the password is not
  provided, validation returns an error, the run returns that error, and the options, the
  store among them, are as they were. When both are provided, validation passes exactly
  when its other checks pass (one of name and \<^verbatim>\<open>--current\<close>, provided ksql and
  schema-registry addresses reachable). A run on which these checks pass, the current
  context is set when \<^verbatim>\<open>--current\<close> is given, the version is absent or parses, and the
  connection to the cluster succeeds when bootstrap servers are provided, returns the name
  and whether it was stored, after printing the merged context and checking the
  connection; it stores the merged context under the name, and SASL is on in that context.
  And every run that succeeds has stored a context in which SASL is on.
\<close>

theorem run_quiet_sasl_gate:
  assumes "quiet s" and "Provided (useSASL s)"
  shows "(\<not> Provided (user s) \<or> \<not> Provided (password s) \<longrightarrow>
            (\<exists>e t. validate env s = (Inl (Returned e), s, t) \<and>
                   run env s = (Inl (Returned e), s, t))) \<and>
         (Provided (user s) \<and> Provided (password s) \<longrightarrow>
            (validate env s = (Inr (), s, ksql_events s @ registry_events s) \<longleftrightarrow>
               (name s \<noteq> []) \<noteq> currContext s \<and>
               (Provided (ksql s) \<longrightarrow> reachable env (String_of (ksql s))) \<and>
               (Provided (schemaRegistry s) \<longrightarrow> reachable env (String_of (schemaRegistry s)))) \<and>
            ((name s \<noteq> []) \<noteq> currContext s \<and>
             (Provided (ksql s) \<longrightarrow> reachable env (String_of (ksql s))) \<and>
             (Provided (schemaRegistry s) \<longrightarrow> reachable env (String_of (schemaRegistry s))) \<and>
             (currContext s \<longrightarrow> CurrentContext (KaftaData (config s)) \<noteq> []) \<and>
             (parsedVersion s = [] \<and> v = KafkaVersion (starting_instance env s) \<or>
              parsedVersion s \<noteq> [] \<and> ParseKafkaVersion env (parsedVersion s) = Inr v) \<and>
             (Provided (bootstrapServers s) \<longrightarrow>
                MakeConnectionContext env (config s) (merged s v (starting_instance env s)) = None)
             \<longrightarrow> run env s
                   = (Inr (target_name s, stored s),
                      persist (target_name s) (merged s v (starting_instance env s)) s,
                      ksql_events s @ registry_events s
                      @ PrintedContext (merged s v (starting_instance env s))
                        # (if Provided (bootstrapServers s)
                           then [Connected (config s) (merged s v (starting_instance env s))]
                           else [])) \<and>
                 Contexts (KaftaData (config
                     (persist (target_name s) (merged s v (starting_instance env s)) s)))
                   (target_name s)
                   = Some (merged s v (starting_instance env s)) \<and>
                 UseSASL (merged s v (starting_instance env s))) \<and>
            (\<forall>x s' t. run env s = (Inr x, s', t) \<longrightarrow>
               (\<exists>c'. Contexts (KaftaData (config s')) (fst x) = Some c' \<and> UseSASL c')))"
proof (intro conjI impI allI)
  assume missing: "\<not> Provided (user s) \<or> \<not> Provided (password s)"
  from validate_sasl_missing [OF assms missing]
  obtain e t where v: "validate env s = (Inl (Returned e), s, t)"
    by blast
  then have "run env s = (Inl (Returned e), s, t)"
    by (simp add: run_unfold)
  with v show "\<exists>e t. validate env s = (Inl (Returned e), s, t) \<and>
                   run env s = (Inl (Returned e), s, t)"
    by blast
next
  assume "Provided (user s) \<and> Provided (password s)"
  then show "validate env s = (Inr (), s, ksql_events s @ registry_events s) \<longleftrightarrow>
               (name s \<noteq> []) \<noteq> currContext s \<and>
               (Provided (ksql s) \<longrightarrow> reachable env (String_of (ksql s))) \<and>
               (Provided (schemaRegistry s) \<longrightarrow> reachable env (String_of (schemaRegistry s)))"
    using validate_sasl_present by blast
next
  let ?c = "merged s v (starting_instance env s)"
  assume both: "Provided (user s) \<and> Provided (password s)"
  assume gates: "(name s \<noteq> []) \<noteq> currContext s \<and>
             (Provided (ksql s) \<longrightarrow> reachable env (String_of (ksql s))) \<and>
             (Provided (schemaRegistry s) \<longrightarrow> reachable env (String_of (schemaRegistry s))) \<and>
             (currContext s \<longrightarrow> CurrentContext (KaftaData (config s)) \<noteq> []) \<and>
             (parsedVersion s = [] \<and> v = KafkaVersion (starting_instance env s) \<or>
              parsedVersion s \<noteq> [] \<and> ParseKafkaVersion env (parsedVersion s) = Inr v) \<and>
             (Provided (bootstrapServers s) \<longrightarrow>
                MakeConnectionContext env (config s) (merged s v (starting_instance env s)) = None)"
  from both gates have v: "validate env s = (Inr (), s, ksql_events s @ registry_events s)"
    using validate_sasl_present by blast
  have p: "promptNeeded env (starting_instance env s) s = (Inr (), s, [])"
    using assms(1) by (rule promptNeeded_quiet)
  from gates have m: "modifyContext env s (starting_instance env s) = Inr ?c"
    by (intro modifyContext_version_gate) blast
  from gates have cur: "\<not> (currContext s \<and> CurrentContext (KaftaData (config s)) = [])"
    and conn: "Provided (bootstrapServers s) \<longrightarrow> MakeConnectionContext env (config s) ?c = None"
    by auto
  from v p m cur conn
  show "run env s
          = (Inr (target_name s, stored s), persist (target_name s) ?c s,
             ksql_events s @ registry_events s
             @ PrintedContext ?c
               # (if Provided (bootstrapServers s) then [Connected (config s) ?c] else []))"
    by (cases "Provided (bootstrapServers s)") (simp_all add: run_unfold)
  show "Contexts (KaftaData (config (persist (target_name s) ?c s))) (target_name s) = Some ?c"
    by (simp add: config_persist)
  from assms(2) show "UseSASL ?c"
    by (simp add: merged_def)
next
  fix x s' t
  assume both: "Provided (user s) \<and> Provided (password s)"
  assume run: "run env s = (Inr x, s', t)"
  have p: "promptNeeded env (starting_instance env s) s = (Inr (), s, [])"
    using assms(1) by (rule promptNeeded_quiet)
  obtain rv tv where v: "validate env s = (rv, s, tv)"
    using validate_state by (cases "validate env s") auto
  from run v p obtain c' where m: "modifyContext env s (starting_instance env s) = Inr c'"
    and x: "x = (target_name s, stored s)" and s': "s' = persist (target_name s) c' s"
    by (auto simp add: run_unfold split: sum.splits if_splits option.splits)
  from assms(2) have "UseSASL c'"
    by (simp add: modifyContext_UseSASL [OF m])
  with x s' show "\<exists>c'. Contexts (KaftaData (config s')) (fst x) = Some c' \<and> UseSASL c'"
    by (simp add: config_persist)
qed

theorem run_quiet_sasl_gate_witness:
  "quiet sasl_no_user_options \<and> Provided (useSASL sasl_no_user_options) \<and>
   \<not> Provided (user sasl_no_user_options) \<and>
   (\<exists>e t. run friendly_env sasl_no_user_options
            = (Inl (Returned e), sasl_no_user_options, t)) \<and>
   quiet sasl_server_options \<and> Provided (useSASL sasl_server_options) \<and>
   Provided (user sasl_server_options) \<and> Provided (password sasl_server_options) \<and>
   run friendly_env sasl_server_options
     = (Inr (''dev'', False),
        persist ''dev''
          (zero_context\<lparr>BootstrapServers := [''b1:9092''], UseSASL := True,
                        SASL := \<lparr>Algorithm = [], Username = ''ann'', Password = ''pw''\<rparr>,
                        TLS := True\<rparr>)
          sasl_server_options,
        [PrintedContext
           (zero_context\<lparr>BootstrapServers := [''b1:9092''], UseSASL := True,
                         SASL := \<lparr>Algorithm = [], Username = ''ann'', Password = ''pw''\<rparr>,
                         TLS := True\<rparr>),
         Connected empty_store
           (zero_context\<lparr>BootstrapServers := [''b1:9092''], UseSASL := True,
                         SASL := \<lparr>Algorithm = [], Username = ''ann'', Password = ''pw''\<rparr>,
                         TLS := True\<rparr>)]) \<and>
   Contexts (KaftaData (config
     (persist ''dev''
        (zero_context\<lparr>BootstrapServers := [''b1:9092''], UseSASL := True,
                      SASL := \<lparr>Algorithm = [], Username = ''ann'', Password = ''pw''\<rparr>,
                      TLS := True\<rparr>)
        sasl_server_options))) ''dev''
     = Some (zero_context\<lparr>BootstrapServers := [''b1:9092''], UseSASL := True,
                           SASL := \<lparr>Algorithm = [], Username = ''ann'', Password = ''pw''\<rparr>,
                           TLS := True\<rparr>) \<and>
   UseSASL (zero_context\<lparr>BootstrapServers := [''b1:9092''], UseSASL := True,
                         SASL := \<lparr>Algorithm = [], Username = ''ann'', Password = ''pw''\<rparr>,
                         TLS := True\<rparr>)"
proof -
  let ?s = sasl_server_options
  let ?u = sasl_no_user_options
  let ?c = "zero_context\<lparr>BootstrapServers := [''b1:9092''], UseSASL := True,
                         SASL := \<lparr>Algorithm = [], Username = ''ann'', Password = ''pw''\<rparr>,
                         TLS := True\<rparr>"
  have qu: "quiet ?u" "Provided (useSASL ?u)" "\<not> Provided (user ?u) \<or> \<not> Provided (password ?u)"
    "\<not> Provided (user ?u)"
    by (simp_all add: run_example_defs sasl_no_user_options_def example_defs)
  have qs: "quiet ?s" "Provided (useSASL ?s)" "Provided (user ?s) \<and> Provided (password ?s)"
    "Provided (user ?s)" "Provided (password ?s)"
    by (simp_all add: run_example_defs sasl_server_options_def example_defs)
  have n: "target_name ?s = ''dev''" "\<not> stored ?s"
    "starting_instance friendly_env ?s = zero_context" "config ?s = empty_store"
    "ksql_events ?s = []" "registry_events ?s = []" "Provided (bootstrapServers ?s)"
    by (simp_all add: run_example_defs sasl_server_options_def ksql_events_def
        registry_events_def example_defs)
  have m: "merged ?s [] zero_context = ?c"
    by (simp add: merged_def run_example_defs sasl_server_options_def example_defs)
  have gates: "(name ?s \<noteq> []) \<noteq> currContext ?s \<and>
             (Provided (ksql ?s) \<longrightarrow> reachable friendly_env (String_of (ksql ?s))) \<and>
             (Provided (schemaRegistry ?s)
                \<longrightarrow> reachable friendly_env (String_of (schemaRegistry ?s))) \<and>
             (currContext ?s \<longrightarrow> CurrentContext (KaftaData (config ?s)) \<noteq> []) \<and>
             (parsedVersion ?s = [] \<and> [] = KafkaVersion (starting_instance friendly_env ?s) \<or>
              parsedVersion ?s \<noteq> [] \<and> ParseKafkaVersion friendly_env (parsedVersion ?s) = Inr []) \<and>
             (Provided (bootstrapServers ?s) \<longrightarrow>
                MakeConnectionContext friendly_env (config ?s)
                  (merged ?s [] (starting_instance friendly_env ?s)) = None)"
    by (simp add: run_example_defs sasl_server_options_def example_defs)
  from run_quiet_sasl_gate [OF qu(1,2), where env = friendly_env, THEN conjunct1, THEN mp, OF qu(3)]
  have 1: "\<exists>e t. run friendly_env ?u = (Inl (Returned e), ?u, t)"
    by blast
  from run_quiet_sasl_gate [OF qs(1,2), where env = friendly_env and v = "[]", THEN conjunct2,
      THEN mp, OF qs(3), THEN conjunct2, THEN conjunct1, THEN mp, OF gates]
  have 2: "run friendly_env ?s
             = (Inr (''dev'', False), persist ''dev'' ?c ?s,
                [PrintedContext ?c, Connected empty_store ?c]) \<and>
           Contexts (KaftaData (config (persist ''dev'' ?c ?s))) ''dev'' = Some ?c \<and>
           UseSASL ?c"
    by (simp only: n m if_True append_Nil)
  from qu(1,2,4) 1 qs(1,2,4,5) 2 show ?thesis
    by (intro conjI) simp_all
qed

subsection \<open>C9: the broker that get-configs describes\<close>

lemma decimal_digits_nonempty: "decimal_digits n \<noteq> []"
  by (subst decimal_digits.simps) simp

lemma strconv_FormatInt_nonempty: "strconv_FormatInt i \<noteq> []"
  by (simp add: strconv_FormatInt_def decimal_digits_nonempty)

lemma controller_loop_find:
  "controller_loop brokers opts =
     (case find IsController brokers of
        None \<Rightarrow> opts
      | Some b \<Rightarrow> opts\<lparr>brokerId := strconv_FormatInt (ID b)\<rparr>)"
  by (induction brokers) simp_all

lemma defaultValue_no_args_controller:
  assumes "find IsController (GetBrokers env (clusterConfig_config opts)) = Some b"
  shows "defaultValue env [] opts
           = (Inr (), opts\<lparr>brokerId := strconv_FormatInt (ID b)\<rparr>,
              [MadeConnection, GotBrokers, ClosedConnection])"
  using assms
  by (simp add: defaultValue_def eff_defs controller_loop_find strconv_FormatInt_nonempty)

lemma defaultValue_no_args_none:
  assumes "find IsController (GetBrokers env (clusterConfig_config opts)) = None"
    and "brokerId opts = []"
  shows "defaultValue env [] opts
           = (Inl (Returned (HelpError ''Impossible find BrokerId coordinator'')), opts,
              [MadeConnection, GotBrokers, ClosedConnection])"
  using assms
  by (simp add: defaultValue_def eff_defs controller_loop_find)

lemma defaultValue_arg: "defaultValue env (a # as) opts = (Inr (), opts\<lparr>brokerId := a\<rparr>, [])"
  by (simp add: defaultValue_def modify_def)

lemma print_configs_eq: "print_configs env cs s = (Inr (), s, config_rows env cs)"
  by (induction cs) (simp_all add: config_rows_def printContext_def eff_defs)

lemma clusterConfig_run_eq:
  "clusterConfig_run env s
     = (Inr (), s, table_events env (clusterConfig_config s) (brokerId s))"
  by (simp add: clusterConfig_run_def table_events_def print_configs_eq eff_defs)

lemma Run_after_defaultValue:
  "defaultValue env args opts = (Inr (), opts', t) \<Longrightarrow>
   NewCmdClusterGetConfig_Run env args opts
     = (Inr (), opts', t @ table_events env (clusterConfig_config opts') (brokerId opts'))"
  by (simp add: NewCmdClusterGetConfig_Run_def bindE_def returned_error_def CheckErr_def ret_def
      clusterConfig_run_eq)

lemma Run_defaultValue_fails:
  "defaultValue env args opts = (Inl (Returned e), opts', t) \<Longrightarrow>
   NewCmdClusterGetConfig_Run env args opts = (Inl (Exited e), opts', t)"
  by (simp add: NewCmdClusterGetConfig_Run_def bindE_def returned_error_def CheckErr_def fail_def)

text \<open>
  C9: get-configs on the options the command builds. Without an argument, when the first
  broker of the list that is the controller is \<open>b\<close>, the command describes and prints the
  configuration of the broker whose id is the decimal form of the id of \<open>b\<close>; when no
  broker of the list is the controller, the command exits with the help error after
  listing the brokers, and describes and prints nothing. With an argument, the command
  describes the broker named by the first argument as it is written, and its events
  neither list the brokers nor depend on what listing them would give.
\<close>

theorem get_configs_target_broker:
  "(find IsController (GetBrokers env cfg) = Some b \<longrightarrow>
      NewCmdClusterGetConfig_Run env [] (NewCmdClusterGetConfig_options cfg)
        = (Inr (), (NewCmdClusterGetConfig_options cfg)\<lparr>brokerId := strconv_FormatInt (ID b)\<rparr>,
           [MadeConnection, GotBrokers, ClosedConnection]
           @ table_events env cfg (strconv_FormatInt (ID b)))) \<and>
   (find IsController (GetBrokers env cfg) = None \<longrightarrow>
      NewCmdClusterGetConfig_Run env [] (NewCmdClusterGetConfig_options cfg)
        = (Inl (Exited (HelpError ''Impossible find BrokerId coordinator'')),
           NewCmdClusterGetConfig_options cfg,
           [MadeConnection, GotBrokers, ClosedConnection])) \<and>
   NewCmdClusterGetConfig_Run env (a # as) (NewCmdClusterGetConfig_options cfg)
     = (Inr (), (NewCmdClusterGetConfig_options cfg)\<lparr>brokerId := a\<rparr>, table_events env cfg a) \<and>
   GotBrokers \<notin> set (table_events env cfg a) \<and>
   NewCmdClusterGetConfig_Run (env\<lparr>GetBrokers := g\<rparr>) (a # as) (NewCmdClusterGetConfig_options cfg)
     = NewCmdClusterGetConfig_Run env (a # as) (NewCmdClusterGetConfig_options cfg)"
proof (intro conjI impI)
  let ?opts = "NewCmdClusterGetConfig_options cfg"
  have cfg: "clusterConfig_config ?opts = cfg" "brokerId ?opts = []"
    by (simp_all add: NewCmdClusterGetConfig_options_def)
  { assume "find IsController (GetBrokers env cfg) = Some b"
    with cfg have "defaultValue env [] ?opts
           = (Inr (), ?opts\<lparr>brokerId := strconv_FormatInt (ID b)\<rparr>,
              [MadeConnection, GotBrokers, ClosedConnection])"
      by (simp add: defaultValue_no_args_controller)
    from Run_after_defaultValue [OF this] cfg
    show "NewCmdClusterGetConfig_Run env [] ?opts
        = (Inr (), ?opts\<lparr>brokerId := strconv_FormatInt (ID b)\<rparr>,
           [MadeConnection, GotBrokers, ClosedConnection]
           @ table_events env cfg (strconv_FormatInt (ID b)))"
      by simp }
  { assume "find IsController (GetBrokers env cfg) = None"
    with cfg have "defaultValue env [] ?opts
           = (Inl (Returned (HelpError ''Impossible find BrokerId coordinator'')), ?opts,
              [MadeConnection, GotBrokers, ClosedConnection])"
      by (simp add: defaultValue_no_args_none)
    from Run_defaultValue_fails [OF this]
    show "NewCmdClusterGetConfig_Run env [] ?opts
        = (Inl (Exited (HelpError ''Impossible find BrokerId coordinator'')), ?opts,
           [MadeConnection, GotBrokers, ClosedConnection])" . }
  have arg: "NewCmdClusterGetConfig_Run e (a # as) ?opts
     = (Inr (), ?opts\<lparr>brokerId := a\<rparr>, table_events e cfg a)" for e
    using Run_after_defaultValue [OF defaultValue_arg, of e a as ?opts] cfg
    by simp
  from arg show "NewCmdClusterGetConfig_Run env (a # as) ?opts
     = (Inr (), ?opts\<lparr>brokerId := a\<rparr>, table_events env cfg a)" .
  show "GotBrokers \<notin> set (table_events env cfg a)"
    by (auto simp add: table_events_def config_rows_def)
  have "table_events (env\<lparr>GetBrokers := g\<rparr>) cfg a = table_events env cfg a"
    by (simp add: table_events_def config_rows_def)
  with arg show "NewCmdClusterGetConfig_Run (env\<lparr>GetBrokers := g\<rparr>) (a # as) ?opts
     = NewCmdClusterGetConfig_Run env (a # as) ?opts"
    by simp
qed

theorem get_configs_target_broker_witness:
  "find IsController (GetBrokers three_brokers empty_store) = Some \<lparr>ID = 2, IsController = True\<rparr> \<and>
   NewCmdClusterGetConfig_Run three_brokers [] (NewCmdClusterGetConfig_options empty_store)
     = (Inr (), (NewCmdClusterGetConfig_options empty_store)\<lparr>brokerId := ''2''\<rparr>,
        [MadeConnection, GotBrokers, ClosedConnection, MadeConnection,
         DescribedBrokerConfig ''2'',
         Printed (''NAME'' @ [CHR 0x09] @ ''VALUE'' @ [CHR 0x09] @ ''DEFAULT''),
         Printed (''log.dirs'' @ [CHR 0x09] @ ''/data'' @ [CHR 0x09] @ ''false'' @ [CHR 0x0A]),
         ClosedConnection]) \<and>
   find IsController (GetBrokers no_controller empty_store) = None \<and>
   NewCmdClusterGetConfig_Run no_controller [] (NewCmdClusterGetConfig_options empty_store)
     = (Inl (Exited (HelpError ''Impossible find BrokerId coordinator'')),
        NewCmdClusterGetConfig_options empty_store,
        [MadeConnection, GotBrokers, ClosedConnection])"
proof -
  have f: "find IsController (GetBrokers three_brokers empty_store)
             = Some \<lparr>ID = 2, IsController = True\<rparr>"
    by (simp add: three_brokers_def)
  have n: "find IsController (GetBrokers no_controller empty_store) = None"
    by (simp add: no_controller_def)
  have d: "strconv_FormatInt 2 = ''2''"
    by (simp add: strconv_FormatInt_def decimal_digits.simps [of 2])
  have t: "table_events three_brokers empty_store ''2''
             = [MadeConnection, DescribedBrokerConfig ''2'',
                Printed (''NAME'' @ [CHR 0x09] @ ''VALUE'' @ [CHR 0x09] @ ''DEFAULT''),
                Printed (''log.dirs'' @ [CHR 0x09] @ ''/data'' @ [CHR 0x09] @ ''false'' @ [CHR 0x0A]),
                ClosedConnection]"
    by (simp add: table_events_def config_rows_def three_brokers_def fmt_bool_def)
  from get_configs_target_broker
         [where env = three_brokers and cfg = empty_store and b = "\<lparr>ID = 2, IsController = True\<rparr>",
          THEN conjunct1, THEN mp, OF f]
  have 1: "NewCmdClusterGetConfig_Run three_brokers [] (NewCmdClusterGetConfig_options empty_store)
     = (Inr (), (NewCmdClusterGetConfig_options empty_store)\<lparr>brokerId := ''2''\<rparr>,
        [MadeConnection, GotBrokers, ClosedConnection, MadeConnection,
         DescribedBrokerConfig ''2'',
         Printed (''NAME'' @ [CHR 0x09] @ ''VALUE'' @ [CHR 0x09] @ ''DEFAULT''),
         Printed (''log.dirs'' @ [CHR 0x09] @ ''/data'' @ [CHR 0x09] @ ''false'' @ [CHR 0x0A]),
         ClosedConnection])"
    by (simp add: d t)
  from get_configs_target_broker
         [where env = no_controller and cfg = empty_store,
          THEN conjunct2, THEN conjunct1, THEN mp, OF n]
  have 2: "NewCmdClusterGetConfig_Run no_controller [] (NewCmdClusterGetConfig_options empty_store)
     = (Inl (Exited (HelpError ''Impossible find BrokerId coordinator'')),
        NewCmdClusterGetConfig_options empty_store,
        [MadeConnection, GotBrokers, ClosedConnection])" .
  from f 1 n 2 show ?thesis
    by (intro conjI)
qed

end
